theory Spec2Isabelle
  imports Complex_Main "HOL-Library.Word" "HOL-Library.AList"
begin

section \<open>Python values\<close>

text \<open>
  A Python \<open>float\<close> is an IEEE 754 double: not-a-number, minus infinity, a finite value, or
  plus infinity. \<open>Fin x\<close> is the float whose value is the real \<open>x\<close>. Comparisons are exact, and
  false whenever \<open>NaN\<close> takes part. Subtraction, division and multiplication round their exact
  result to the nearest double (\<open>fl\<close> below). The sign of zero is not modelled.
\<close>

datatype pyfloat = NaN | NInf | Fin real | PInf

fun flt :: "pyfloat \<Rightarrow> pyfloat \<Rightarrow> bool" where
  "flt NaN _ = False"
| "flt _ NaN = False"
| "flt NInf NInf = False"
| "flt NInf _ = True"
| "flt (Fin a) (Fin b) = (a < b)"
| "flt (Fin a) PInf = True"
| "flt (Fin a) NInf = False"
| "flt PInf _ = False"

definition fgt :: "pyfloat \<Rightarrow> pyfloat \<Rightarrow> bool" where
  "fgt a b = flt b a"

text \<open>\<open>a <= b\<close> on floats; used in statements only (the sources below use \<open><\<close> and \<open>>\<close>).\<close>

definition fle :: "pyfloat \<Rightarrow> pyfloat \<Rightarrow> bool" where
  "fle a b = (a \<noteq> NaN \<and> b \<noteq> NaN \<and> \<not> flt b a)"

fun fabs :: "pyfloat \<Rightarrow> pyfloat" where
  "fabs NaN = NaN"
| "fabs NInf = PInf"
| "fabs (Fin a) = Fin \<bar>a\<bar>"
| "fabs PInf = PInf"

text \<open>The nearest integer, a tie going to the even neighbour.\<close>

definition round_half_even :: "real \<Rightarrow> int" where
  "round_half_even y =
     (let f = \<lfloor>y\<rfloor>; r = y - of_int f
      in if r < 1 / 2 then f
         else if 1 / 2 < r then f + 1
         else if even f then f else f + 1)"

text \<open>
  Rounding a real to the nearest double, ties to the even significand. \<open>ilog2 n\<close> is the
  position of the leading bit of \<open>n\<close>, and \<open>fl_exponent x\<close> the exponent \<open>e\<close> with
  \<open>2^e \<le> x < 2^(e+1)\<close> for a positive \<open>x\<close>. A double has a significand of 53 bits, so its
  last bit is worth \<open>2^(e-52)\<close>, and \<open>2^-1074\<close> below the normal range; a result of magnitude
  \<open>2^1024\<close> or more overflows to an infinity.
\<close>

definition pow2 :: "int \<Rightarrow> real" where
  "pow2 e = (if 0 \<le> e then 2 ^ nat e else 1 / 2 ^ nat (- e))"

function ilog2 :: "int \<Rightarrow> nat" where
  "ilog2 n = (if n < 2 then 0 else Suc (ilog2 (n div 2)))"
  by pat_completeness auto
termination
  by (relation "measure nat") auto

declare ilog2.simps [simp del]

definition fl_exponent :: "real \<Rightarrow> int" where
  "fl_exponent x =
     (if 1 \<le> x then int (ilog2 \<lfloor>x\<rfloor>)
      else - int (ilog2 (\<lceil>1 / x\<rceil> - 1)) - 1)"

definition fl :: "real \<Rightarrow> pyfloat" where
  "fl x =
     (if x = 0 then Fin 0
      else
        (let e = max (fl_exponent \<bar>x\<bar>) (- 1022);
             q = pow2 (e - 52);
             r = of_int (round_half_even (x / q)) * q
         in if 2 ^ 1024 \<le> \<bar>r\<bar> then (if 0 < r then PInf else NInf) else Fin r))"

fun fsub :: "pyfloat \<Rightarrow> pyfloat \<Rightarrow> pyfloat" where
  "fsub NaN _ = NaN"
| "fsub _ NaN = NaN"
| "fsub (Fin a) (Fin b) = fl (a - b)"
| "fsub (Fin a) PInf = NInf"
| "fsub (Fin a) NInf = PInf"
| "fsub PInf PInf = NaN"
| "fsub PInf _ = PInf"
| "fsub NInf NInf = NaN"
| "fsub NInf _ = NInf"

text \<open>Multiplication by a positive finite constant (the sources scale by 1000).\<close>

fun fscale :: "pyfloat \<Rightarrow> real \<Rightarrow> pyfloat" where
  "fscale (Fin a) k = fl (a * k)"
| "fscale x k = x"

datatype py_error = ZeroDivisionError | StructError

text \<open>
  Float division: Python raises \<open>ZeroDivisionError\<close> when the divisor is zero, whatever the
  dividend is.
\<close>

fun fdiv :: "pyfloat \<Rightarrow> pyfloat \<Rightarrow> py_error + pyfloat" where
  "fdiv a (Fin b) =
     (if b = 0 then Inl ZeroDivisionError
      else Inr (case a of Fin x \<Rightarrow> fl (x / b)
                | NaN \<Rightarrow> NaN
                | PInf \<Rightarrow> (if 0 < b then PInf else NInf)
                | NInf \<Rightarrow> (if 0 < b then NInf else PInf)))"
| "fdiv a NaN = Inr NaN"
| "fdiv (Fin x) PInf = Inr (Fin 0)"
| "fdiv (Fin x) NInf = Inr (Fin 0)"
| "fdiv a PInf = Inr NaN"
| "fdiv a NInf = Inr NaN"

text \<open>
  \<open>round(x, n)\<close> on a float: the multiple of \<open>10^-n\<close> nearest to the exact value of \<open>x\<close>, a tie
  going to the even neighbour, written as the decimal itself (the code returns the double
  nearest to that decimal); infinities and \<open>NaN\<close> are returned as they are.
\<close>

fun py_round :: "pyfloat \<Rightarrow> nat \<Rightarrow> pyfloat" where
  "py_round (Fin a) n = Fin (of_int (round_half_even (a * 10 ^ n)) / 10 ^ n)"
| "py_round x n = x"

text \<open>\<open>d.get(key, default)\<close> on a field that may be missing.\<close>

fun get_or :: "'a option \<Rightarrow> 'a \<Rightarrow> 'a" where
  "get_or None d = d"
| "get_or (Some v) d = v"

section \<open>The manager's state read by the endpoints\<close>

text \<open>
  The per-sensor statistics dictionary: every key may be missing, the endpoints read it
  with \<open>.get\<close> and a default.
\<close>

record center_stats =
  stable_distance :: "pyfloat option"
  speed_mps :: "pyfloat option"
  speed_mm_s :: "pyfloat option"
  instant_speed :: "pyfloat option"
  sa_averaged_speed :: "pyfloat option"
  trend_speed :: "pyfloat option"
  speed_precision_mm_s :: "pyfloat option"
  is_vessel_moving :: "bool option"
  movement_phase :: "string option"
  speed_confidence :: "pyfloat option"

definition empty_stats :: center_stats where
  "empty_stats = \<lparr>stable_distance = None, speed_mps = None, speed_mm_s = None,
     instant_speed = None, sa_averaged_speed = None, trend_speed = None,
     speed_precision_mm_s = None, is_vessel_moving = None, movement_phase = None,
     speed_confidence = None\<rparr>"

record sync_data =
  sync_timestamp :: "pyfloat option"
  sync_center_stats :: "center_stats option"

definition empty_sync :: sync_data where
  "empty_sync = \<lparr>sync_timestamp = None, sync_center_stats = None\<rparr>"

record calculator =
  distance_history :: "(pyfloat \<times> pyfloat) list"

record lidar_manager =
  sensors :: "string list"
  stream_active :: "string \<rightharpoonup> bool"
  sensor_sync_data :: "string \<rightharpoonup> sync_data"
  berthing_mode_sensors :: "string list"
  berthing_mode_center_stats :: "string \<rightharpoonup> center_stats"
  berthing_mode_active :: bool
  sync_coordinator_active :: bool
  vessel_speed_calculators :: "string \<rightharpoonup> calculator"

section \<open>berthing\_data\_core: the per-sensor view\<close>

datatype direction = Approaching | Departing | Lateral | Stationary

record sensor_view =
  v_sensor_id :: string
  v_timestamp :: pyfloat
  v_distance :: pyfloat
  v_distance_mm :: pyfloat
  v_speed :: pyfloat
  v_speed_mm_s :: pyfloat
  v_instant_speed :: pyfloat
  v_instant_speed_mm_s :: pyfloat
  v_sa_averaged_speed :: pyfloat
  v_sa_averaged_speed_mm_s :: pyfloat
  v_trend_speed :: pyfloat
  v_speed_precision_mm_s :: pyfloat
  v_is_moving :: bool
  v_direction :: direction
  v_movement_phase :: string
  v_confidence :: pyfloat
  v_stable_distance :: pyfloat

text \<open>The three shapes of the dictionary the function returns, told apart by \<open>status\<close>.\<close>

datatype fetch_result =
  Not_found string string
| Stream_inactive string string
| Active sensor_view

definition movement_direction :: "bool \<Rightarrow> pyfloat \<Rightarrow> direction" where
  "movement_direction is_moving speed =
     (if is_moving then
        (if flt speed (Fin 0) then Approaching
         else if fgt speed (Fin 0) then Departing
         else Lateral)
      else Stationary)"

definition fetch_berthing_data_for_sensor :: "lidar_manager \<Rightarrow> string \<Rightarrow> fetch_result" where
  "fetch_berthing_data_for_sensor mgr sensor_id =
     (if sensor_id \<notin> set (sensors mgr) then
        Not_found sensor_id (''Sensor '' @ sensor_id @ '' not found.'')
      else if \<not> get_or (stream_active mgr sensor_id) False then
        Stream_inactive sensor_id (''Data stream not active for sensor '' @ sensor_id @ ''.'')
      else
        (let sd = get_or (sensor_sync_data mgr sensor_id) empty_sync;
             cs = get_or (sync_center_stats sd) empty_stats;
             timestamp = get_or (sync_timestamp sd) (Fin 0);
             distance = get_or (stable_distance cs) (Fin 0);
             speed = get_or (speed_mps cs) (Fin 0);
             speed_mm = get_or (speed_mm_s cs) (Fin 0);
             instant = get_or (instant_speed cs) (Fin 0);
             sa_averaged = get_or (sa_averaged_speed cs) (Fin 0);
             trend = get_or (trend_speed cs) (Fin 0);
             precision = get_or (speed_precision_mm_s cs) (Fin 0);
             is_moving = get_or (is_vessel_moving cs) False;
             phase = get_or (movement_phase cs) ''unknown'';
             confidence = get_or (speed_confidence cs) (Fin 0);
             dir = movement_direction is_moving speed
         in Active \<lparr>v_sensor_id = sensor_id,
              v_timestamp = timestamp,
              v_distance = py_round distance 3,
              v_distance_mm = py_round (fscale distance 1000) 0,
              v_speed = py_round speed 4,
              v_speed_mm_s = py_round speed_mm 1,
              v_instant_speed = py_round instant 4,
              v_instant_speed_mm_s = py_round (fscale instant 1000) 1,
              v_sa_averaged_speed = py_round sa_averaged 4,
              v_sa_averaged_speed_mm_s = py_round (fscale sa_averaged 1000) 1,
              v_trend_speed = py_round trend 4,
              v_speed_precision_mm_s = py_round precision 3,
              v_is_moving = is_moving,
              v_direction = dir,
              v_movement_phase = phase,
              v_confidence = py_round confidence 2,
              v_stable_distance = py_round distance 3\<rparr>))"

text \<open>What the function read as \<open>speed\<close> and \<open>is_moving\<close> for a sensor.\<close>

definition read_speed :: "lidar_manager \<Rightarrow> string \<Rightarrow> pyfloat" where
  "read_speed mgr sensor_id =
     get_or (speed_mps (get_or (sync_center_stats
        (get_or (sensor_sync_data mgr sensor_id) empty_sync)) empty_stats)) (Fin 0)"

definition read_is_moving :: "lidar_manager \<Rightarrow> string \<Rightarrow> bool" where
  "read_is_moving mgr sensor_id =
     get_or (is_vessel_moving (get_or (sync_center_stats
        (get_or (sensor_sync_data mgr sensor_id) empty_sync)) empty_stats)) False"

section \<open>berthing\_data: the summary of a berthing operation\<close>

datatype overall_status =
  Idle | Inactive | Final_approach | Status_approaching | Monitoring | Berthed | Standby

record sensor_summary =
  s_distance :: pyfloat
  s_speed_mm_s :: pyfloat
  s_is_moving :: bool
  s_phase :: string

record summary =
  sum_berthing_mode_active :: bool
  sum_sensors :: "(string \<times> sensor_summary) list"
  sum_overall_status :: overall_status
  sum_min_distance :: "pyfloat option"
  sum_max_speed_mm_s :: pyfloat

text \<open>
  The state of the loop over \<open>berthing_mode_sensors\<close>: the \<open>sensors\<close> entry of the summary
  (a dictionary, in insertion order), \<open>any_moving\<close>, \<open>min_distance\<close> and \<open>max_speed\<close>.
\<close>

record summary_acc =
  acc_sensors :: "(string \<times> sensor_summary) list"
  any_moving :: bool
  min_distance :: pyfloat
  max_speed :: pyfloat

definition summary_init :: summary_acc where
  "summary_init = \<lparr>acc_sensors = [], any_moving = False, min_distance = PInf, max_speed = Fin 0\<rparr>"

definition summary_step :: "lidar_manager \<Rightarrow> summary_acc \<Rightarrow> string \<Rightarrow> summary_acc" where
  "summary_step mgr acc sensor_id =
     (case berthing_mode_center_stats mgr sensor_id of
        None \<Rightarrow> acc
      | Some stats \<Rightarrow>
          (let distance = get_or (stable_distance stats) (Fin 0);
               speed = fabs (get_or (speed_mps stats) (Fin 0));
               is_moving = get_or (is_vessel_moving stats) False;
               phase = get_or (movement_phase stats) ''unknown''
           in \<lparr>acc_sensors = AList.update sensor_id
                  \<lparr>s_distance = py_round distance 3,
                   s_speed_mm_s = py_round (fscale speed 1000) 1,
                   s_is_moving = is_moving,
                   s_phase = phase\<rparr> (acc_sensors acc),
               any_moving = (if is_moving then True else any_moving acc),
               min_distance =
                 (if flt distance (min_distance acc) \<and> fgt distance (Fin 0)
                  then distance else min_distance acc),
               max_speed = (if fgt speed (max_speed acc) then speed else max_speed acc)\<rparr>))"

fun summary_loop :: "lidar_manager \<Rightarrow> summary_acc \<Rightarrow> string list \<Rightarrow> summary_acc" where
  "summary_loop mgr acc [] = acc"
| "summary_loop mgr acc (sensor_id # rest) = summary_loop mgr (summary_step mgr acc sensor_id) rest"

definition determine_overall_status :: "bool \<Rightarrow> bool \<Rightarrow> pyfloat \<Rightarrow> overall_status" where
  "determine_overall_status active moving md =
     (if \<not> active then Inactive
      else if moving then
        (if flt md (Fin 5) then Final_approach
         else if flt md (Fin 20) then Status_approaching
         else Monitoring)
      else
        (if flt md (Fin 1) then Berthed else Standby))"

definition get_berthing_summary :: "lidar_manager \<Rightarrow> summary" where
  "get_berthing_summary mgr =
     (let acc = summary_loop mgr summary_init (berthing_mode_sensors mgr)
      in \<lparr>sum_berthing_mode_active = berthing_mode_active mgr,
          sum_sensors = acc_sensors acc,
          sum_overall_status =
            determine_overall_status (berthing_mode_active mgr) (any_moving acc) (min_distance acc),
          sum_min_distance =
            (if min_distance acc \<noteq> PInf then Some (py_round (min_distance acc) 3) else None),
          sum_max_speed_mm_s = py_round (fscale (max_speed acc) 1000) 1\<rparr>)"

text \<open>
  The tuples \<open>(distance, speed, is_moving)\<close> the loop reads, one for each sensor of
  \<open>berthing_mode_sensors\<close> that has an entry in \<open>berthing_mode_center_stats\<close>, in order.
\<close>

definition stats_tuple :: "center_stats \<Rightarrow> pyfloat \<times> pyfloat \<times> bool" where
  "stats_tuple stats =
     (get_or (stable_distance stats) (Fin 0),
      fabs (get_or (speed_mps stats) (Fin 0)),
      get_or (is_vessel_moving stats) False)"

fun sensor_tuples :: "lidar_manager \<Rightarrow> string list \<Rightarrow> (pyfloat \<times> pyfloat \<times> bool) list" where
  "sensor_tuples mgr [] = []"
| "sensor_tuples mgr (sensor_id # rest) =
     (case berthing_mode_center_stats mgr sensor_id of
        None \<Rightarrow> sensor_tuples mgr rest
      | Some stats \<Rightarrow> stats_tuple stats # sensor_tuples mgr rest)"

definition positive_distances :: "(pyfloat \<times> pyfloat \<times> bool) list \<Rightarrow> pyfloat list" where
  "positive_distances ts = filter (\<lambda>d. fgt d (Fin 0)) (map fst ts)"

definition some_moving :: "(pyfloat \<times> pyfloat \<times> bool) list \<Rightarrow> bool" where
  "some_moving ts = list_ex (\<lambda>t. snd (snd t)) ts"

text \<open>\<open>m\<close> is a least element of \<open>ds\<close>.\<close>

definition is_minimum :: "pyfloat \<Rightarrow> pyfloat list \<Rightarrow> bool" where
  "is_minimum m ds = (list_ex (\<lambda>d. d = m) ds \<and> list_all (\<lambda>d. fle m d) ds)"

subsection \<open>Example managers\<close>

definition mk_stats :: "pyfloat \<Rightarrow> pyfloat \<Rightarrow> bool \<Rightarrow> center_stats" where
  "mk_stats d s m = empty_stats\<lparr>stable_distance := Some d, speed_mps := Some s,
     is_vessel_moving := Some m\<rparr>"

definition mk_manager :: "bool \<Rightarrow> (string \<times> center_stats) list \<Rightarrow> lidar_manager" where
  "mk_manager active stats =
     \<lparr>sensors = map fst stats,
      stream_active = map_of (map (\<lambda>p. (fst p, True)) stats),
      sensor_sync_data =
        map_of (map (\<lambda>p. (fst p, \<lparr>sync_timestamp = Some (Fin 1),
                                     sync_center_stats = Some (snd p)\<rparr>)) stats),
      berthing_mode_sensors = map fst stats,
      berthing_mode_center_stats = map_of stats,
      berthing_mode_active = active,
      sync_coordinator_active = False,
      vessel_speed_calculators = Map.empty\<rparr>"

text \<open>Two sensors: one without a valid reading, one at 15 m moving away at 0.1 m/s.\<close>

definition two_sensor_manager :: lidar_manager where
  "two_sensor_manager =
     mk_manager True [(''a'', mk_stats (Fin 0) (Fin 0) False),
                      (''b'', mk_stats (Fin 15) (Fin (1 / 10)) True)]"

text \<open>One sensor that is flagged as moving and has no valid reading.\<close>

definition moving_unread_manager :: lidar_manager where
  "moving_unread_manager = mk_manager True [(''a'', mk_stats (Fin 0) (Fin (1 / 10)) True)]"

section \<open>berthing\_data: the history of a sensor\<close>

text \<open>
  The endpoint raises \<open>HTTPException(status_code, detail)\<close>; any other exception raised in
  its body is caught and raised again as \<open>HTTPException(500, str(e))\<close>.
\<close>

datatype http_exception = HTTPException nat string

fun error_str :: "py_error \<Rightarrow> string" where
  "error_str ZeroDivisionError = ''float division by zero''"
| "error_str StructError = ''argument out of range''"

record history_entry =
  h_timestamp :: pyfloat
  h_distance :: pyfloat
  h_speed :: pyfloat
  h_speed_mm_s :: pyfloat

record history_response =
  hr_sensor_id :: string
  hr_history :: "history_entry list"
  hr_count :: nat
  hr_oldest_timestamp :: pyfloat
  hr_latest_timestamp :: pyfloat

text \<open>The slice \<open>xs[k:]\<close>: a negative \<open>k\<close> counts from the end, and the start is clamped.\<close>

definition py_slice_from :: "'a list \<Rightarrow> int \<Rightarrow> 'a list" where
  "py_slice_from xs k =
     (let n = int (length xs);
          start = (if k < 0 then max (n + k) 0 else min k n)
      in drop (nat start) xs)"

definition limit_history :: "'a list \<Rightarrow> int \<Rightarrow> 'a list" where
  "limit_history history limit =
     (if limit < int (length history) then py_slice_from history (- limit) else history)"

text \<open>
  The speed computed for the sample at index \<open>i\<close> (with \<open>i\<close> within the list); the two
  differences and the quotient are float operations.
\<close>

definition history_speed :: "(pyfloat \<times> pyfloat) list \<Rightarrow> nat \<Rightarrow> py_error + pyfloat" where
  "history_speed history i =
     (case history ! i of (timestamp, distance) \<Rightarrow>
        if 0 < i then
          (case history ! (i - 1) of (prev_t, prev_d) \<Rightarrow>
             (let dt = fsub timestamp prev_t
              in if fgt dt (Fin 0) then fdiv (fsub distance prev_d) dt else Inr (Fin 0)))
        else Inr (Fin 0))"

definition history_entry_at :: "(pyfloat \<times> pyfloat) list \<Rightarrow> nat \<Rightarrow> py_error + history_entry" where
  "history_entry_at history i =
     (case history_speed history i of
        Inl e \<Rightarrow> Inl e
      | Inr speed \<Rightarrow>
          Inr \<lparr>h_timestamp = fst (history ! i),
               h_distance = py_round (snd (history ! i)) 3,
               h_speed = py_round speed 4,
               h_speed_mm_s = py_round (fscale speed 1000) 1\<rparr>)"

text \<open>The loop over \<open>enumerate(history)\<close>, appending to \<open>history_data\<close>.\<close>

fun format_history ::
  "(pyfloat \<times> pyfloat) list \<Rightarrow> nat list \<Rightarrow> history_entry list \<Rightarrow> py_error + history_entry list"
where
  "format_history history [] history_data = Inr history_data"
| "format_history history (i # rest) history_data =
     (case history_entry_at history i of
        Inl e \<Rightarrow> Inl e
      | Inr entry \<Rightarrow> format_history history rest (history_data @ [entry]))"

definition get_berthing_history ::
  "lidar_manager \<Rightarrow> string \<Rightarrow> int \<Rightarrow> http_exception + history_response"
where
  "get_berthing_history mgr sensor_id limit =
     (case vessel_speed_calculators mgr sensor_id of
        None \<Rightarrow> Inl (HTTPException 404 (''No speed calculator found for sensor '' @ sensor_id))
      | Some calc \<Rightarrow>
          (let history = limit_history (distance_history calc) limit
           in case format_history history [0..<length history] [] of
                Inl e \<Rightarrow> Inl (HTTPException 500 (error_str e))
              | Inr history_data \<Rightarrow>
                  Inr \<lparr>hr_sensor_id = sensor_id,
                       hr_history = history_data,
                       hr_count = length history_data,
                       hr_oldest_timestamp =
                         (if history_data \<noteq> [] then h_timestamp (hd history_data) else Fin 0),
                       hr_latest_timestamp =
                         (if history_data \<noteq> [] then h_timestamp (last history_data) else Fin 0)\<rparr>))"

text \<open>A manager with one sensor \<open>''a''\<close> whose calculator holds the given history.\<close>

definition history_manager :: "(pyfloat \<times> pyfloat) list \<Rightarrow> lidar_manager" where
  "history_manager h =
     (mk_manager True [])\<lparr>vessel_speed_calculators := [''a'' \<mapsto> \<lparr>distance_history = h\<rparr>]\<rparr>"

section \<open>fake\_lidar: the simulated device\<close>

type_synonym byte = "8 word"

text \<open>
  The operating system's side of a session: the sockets created so far, each open, bound or
  closed, and the threads started so far with their targets. A socket or thread handle is
  its index in the list.
\<close>

datatype socket_state = Sock_open | Sock_bound string int | Sock_closed

datatype thread_target = Generate_fake_data | Command_listener

record os_state =
  sockets :: "socket_state list"
  threads :: "thread_target list"

definition new_socket :: "os_state \<Rightarrow> nat \<times> os_state" where
  "new_socket os = (length (sockets os), os\<lparr>sockets := sockets os @ [Sock_open]\<rparr>)"

definition bind_socket :: "os_state \<Rightarrow> nat \<Rightarrow> string \<Rightarrow> int \<Rightarrow> os_state" where
  "bind_socket os i addr port = os\<lparr>sockets := (sockets os)[i := Sock_bound addr port]\<rparr>"

definition close_socket :: "os_state \<Rightarrow> nat \<Rightarrow> os_state" where
  "close_socket os i = os\<lparr>sockets := (sockets os)[i := Sock_closed]\<rparr>"

definition start_thread :: "os_state \<Rightarrow> thread_target \<Rightarrow> nat \<times> os_state" where
  "start_thread os target = (length (threads os), os\<lparr>threads := threads os @ [target]\<rparr>)"

text \<open>
  The fields of \<open>FakeLidarSimulator\<close> that its methods write (the constant device type,
  serial and firmware strings are left out). Log output is not part of the state.
\<close>

record fake_lidar =
  isConnected :: bool
  isData :: bool
  sensorIP :: string
  dataPort :: int
  cmdPort :: int
  computerIP :: string
  showMessages :: bool
  dataSocket :: "nat option"
  cmdSocket :: "nat option"
  data_thread :: "nat option"
  running :: bool
  command_thread :: "nat option"
  command_running :: bool

definition fake_lidar_init :: "bool \<Rightarrow> fake_lidar" where
  "fake_lidar_init show =
     \<lparr>isConnected = False, isData = False, sensorIP = [], dataPort = - 1, cmdPort = - 1,
      computerIP = [], showMessages = show, dataSocket = None, cmdSocket = None,
      data_thread = None, running = False, command_thread = None, command_running = False\<rparr>"

text \<open>
  \<open>connect\<close>. Whether each \<open>bind\<close> succeeds is decided by the operating system and is an
  input here; a failed \<open>bind\<close> raises inside the \<open>try\<close>, whose handler returns 0. The result
  is the returned integer with the new session and system state.
\<close>

definition connect ::
  "fake_lidar \<Rightarrow> os_state \<Rightarrow> string \<Rightarrow> string \<Rightarrow> int \<Rightarrow> int \<Rightarrow> bool \<Rightarrow> bool
     \<Rightarrow> int \<times> fake_lidar \<times> os_state"
where
  "connect self os computer_ip sensor_ip data_port cmd_port data_bind_ok cmd_bind_ok =
     (let s1 = self\<lparr>computerIP := computer_ip, sensorIP := sensor_ip,
                     dataPort := data_port, cmdPort := cmd_port\<rparr>;
          (d, os1) = new_socket os;
          (c, os2) = new_socket os1;
          s2 = s1\<lparr>dataSocket := Some d, cmdSocket := Some c\<rparr>
      in if \<not> data_bind_ok then (0, s2, os2)
         else
           (let os3 = bind_socket os2 d computer_ip data_port
            in if \<not> cmd_bind_ok then (0, s2, os3)
               else
                 (let os4 = bind_socket os3 c computer_ip 65000;
                      s3 = s2\<lparr>isConnected := True, command_running := True\<rparr>;
                      (t, os5) = start_thread os4 Command_listener
                  in (1, s3\<lparr>command_thread := Some t\<rparr>, os5))))"

text \<open>\<open>disconnect\<close>; joining a thread changes nothing in this state.\<close>

definition disconnect :: "fake_lidar \<Rightarrow> os_state \<Rightarrow> fake_lidar \<times> os_state" where
  "disconnect self os =
     (let s1 = self\<lparr>running := False, command_running := False\<rparr>;
          os1 = (case dataSocket s1 of None \<Rightarrow> os | Some d \<Rightarrow> close_socket os d);
          os2 = (case cmdSocket s1 of None \<Rightarrow> os1 | Some c \<Rightarrow> close_socket os1 c)
      in (s1\<lparr>isConnected := False, isData := False\<rparr>, os2))"

definition dataStart_RT_B :: "fake_lidar \<Rightarrow> os_state \<Rightarrow> fake_lidar \<times> os_state" where
  "dataStart_RT_B self os =
     (if \<not> isConnected self then (self, os)
      else
        (let s1 = self\<lparr>isData := True, running := True\<rparr>;
             (t, os1) = start_thread os Generate_fake_data
         in (s1\<lparr>data_thread := Some t\<rparr>, os1)))"

definition dataStop :: "fake_lidar \<Rightarrow> os_state \<Rightarrow> fake_lidar \<times> os_state" where
  "dataStop self os = (self\<lparr>isData := False, running := False\<rparr>, os)"

definition CMD_DATA_START :: "byte list" where
  "CMD_DATA_START = [0xAA, 0x01, 0x14, 0x00, 0x00, 0x00, 0x00, 0xB5, 0xED, 0x01, 0x01]"

definition CMD_DATA_STOP :: "byte list" where
  "CMD_DATA_STOP = [0xAA, 0x01, 0x14, 0x00, 0x00, 0x00, 0x00, 0xB5, 0xED, 0x01, 0x00]"

text \<open>
  One round of the loop of \<open>_command_listener\<close>: \<open>recvfrom(1024)\<close> times out, fails, or
  delivers a datagram, of which it keeps at most 1024 bytes. The result says whether the
  loop goes on.
\<close>

datatype recv_event = Recv_timeout | Recv_error | Recv_datagram "byte list"

datatype loop_ctl = Continue | Break

definition command_listener_iter ::
  "fake_lidar \<Rightarrow> os_state \<Rightarrow> recv_event \<Rightarrow> loop_ctl \<times> fake_lidar \<times> os_state"
where
  "command_listener_iter self os ev =
     (case ev of
        Recv_timeout \<Rightarrow> (Continue, self, os)
      | Recv_error \<Rightarrow> (Break, self, os)
      | Recv_datagram datagram \<Rightarrow>
          (let data = take 1024 datagram
           in if 11 \<le> length data \<and> take 11 data = take 11 CMD_DATA_START then
                (Continue, dataStart_RT_B self os)
              else if 11 \<le> length data \<and> take 11 data = take 11 CMD_DATA_STOP then
                (Continue, dataStop self os)
              else (Continue, self, os)))"

text \<open>A session that is connected and streaming, with its two sockets and two threads.\<close>

definition streaming_session :: "fake_lidar \<times> os_state" where
  "streaming_session =
     (case connect (fake_lidar_init False) \<lparr>sockets = [], threads = []\<rparr>
             ''127.0.0.1'' ''127.0.0.1'' 56000 65000 True True of
        (r, s, os) \<Rightarrow> dataStart_RT_B s os)"

subsection \<open>The measurement frame\<close>

text \<open>
  \<open>struct.pack\<close> with \<open><\<close>: each value in its standard size, little-endian, no padding;
  a value outside the range of its format raises \<open>struct.error\<close>.
\<close>

fun le_bytes :: "nat \<Rightarrow> int \<Rightarrow> byte list" where
  "le_bytes 0 v = []"
| "le_bytes (Suc n) v = word_of_int v # le_bytes n (v div 256)"















text \<open>The 13 bytes of a point record whose four values are in range.\<close>

definition enc_point :: "int \<times> int \<times> int \<times> int \<Rightarrow> byte list" where
  "enc_point p = (case p of (x, y, z, intensity) \<Rightarrow>
     le_bytes 4 x @ le_bytes 4 y @ le_bytes 4 z @ le_bytes 1 intensity)"


section \<open>connection: the berthing mode endpoints\<close>

text \<open>
  An exception with its \<open>str()\<close>. An endpoint returns a value, raises an \<open>HTTPException\<close>, or
  reaches the end of its body and so returns \<open>None\<close>.
\<close>

datatype exn = Exn string

datatype 'a endpoint_result = Returns 'a | Raises http_exception | Returns_None

text \<open>
  The dictionary the manager's \<open>get_berthing_mode_status\<close> and \<open>disable_berthing_mode\<close>
  return (their code is outside this development, so their outcome, a dictionary or an
  exception, is an input); \<open>result["key"]\<close> raises \<open>KeyError\<close> on a missing key.
\<close>

record mode_status =
  ms_active :: "bool option"
  ms_sensor_ids :: "string list option"
  ms_connected_sensors :: "string list option"
  ms_streaming_sensors :: "string list option"
  ms_message :: "string option"
  ms_center_stats :: "(string \<times> center_stats) list option"
  ms_synchronized :: "bool option"
  ms_last_sync_timestamp :: "pyfloat option"
  ms_sync_quality :: "string option"

record berthing_mode_response =
  r_berthing_mode_active :: bool
  r_sensor_ids :: "string list"
  r_connected_sensors :: "string list"
  r_streaming_sensors :: "string list"
  r_message :: string
  r_center_stats :: "(string \<times> center_stats) list option"
  r_synchronized :: bool
  r_last_sync_timestamp :: "pyfloat option"
  r_sync_quality :: "string option"

fun subscript :: "string \<Rightarrow> 'a option \<Rightarrow> exn + 'a" where
  "subscript key None = Inl (Exn ([CHR 0x27] @ key @ [CHR 0x27]))"
| "subscript key (Some v) = Inr v"

text \<open>The \<open>try\<close> block of \<open>berthing_mode_status\<close>.\<close>

definition berthing_mode_status_body :: "exn + mode_status \<Rightarrow> exn + berthing_mode_response" where
  "berthing_mode_status_body call =
     (case call of Inl e \<Rightarrow> Inl e | Inr result \<Rightarrow>
      case subscript ''active'' (ms_active result) of Inl e \<Rightarrow> Inl e | Inr active \<Rightarrow>
      case subscript ''sensor_ids'' (ms_sensor_ids result) of Inl e \<Rightarrow> Inl e | Inr ids \<Rightarrow>
      case subscript ''connected_sensors'' (ms_connected_sensors result) of
        Inl e \<Rightarrow> Inl e | Inr connected_ids \<Rightarrow>
      case subscript ''streaming_sensors'' (ms_streaming_sensors result) of
        Inl e \<Rightarrow> Inl e | Inr streaming_ids \<Rightarrow>
      case subscript ''message'' (ms_message result) of Inl e \<Rightarrow> Inl e | Inr message \<Rightarrow>
        Inr \<lparr>r_berthing_mode_active = active, r_sensor_ids = ids,
             r_connected_sensors = connected_ids, r_streaming_sensors = streaming_ids,
             r_message = message, r_center_stats = ms_center_stats result,
             r_synchronized = get_or (ms_synchronized result) False,
             r_last_sync_timestamp = ms_last_sync_timestamp result,
             r_sync_quality = ms_sync_quality result\<rparr>)"

text \<open>
  \<open>berthing_mode_status\<close>: its handler \<open>except Exception as e\<close> logs the error and ends, with
  neither \<open>raise\<close> nor \<open>return\<close>.
\<close>

definition berthing_mode_status :: "exn + mode_status \<Rightarrow> berthing_mode_response endpoint_result"
where
  "berthing_mode_status call =
     (case berthing_mode_status_body call of
        Inr response \<Rightarrow> Returns response
      | Inl e \<Rightarrow> Returns_None)"

text \<open>
  \<open>berthing_mode_off\<close>, the endpoint just above it: its handler logs the error and raises
  \<open>HTTPException(status_code=500, detail=str(e))\<close>.
\<close>

definition berthing_mode_off_body ::
  "string list \<Rightarrow> exn + mode_status \<Rightarrow> exn + berthing_mode_response" where
  "berthing_mode_off_body request_sensor_ids call =
     (case call of Inl e \<Rightarrow> Inl e | Inr result \<Rightarrow>
      case subscript ''active'' (ms_active result) of Inl e \<Rightarrow> Inl e | Inr active \<Rightarrow>
      case subscript ''connected_sensors'' (ms_connected_sensors result) of
        Inl e \<Rightarrow> Inl e | Inr connected_ids \<Rightarrow>
      case subscript ''streaming_sensors'' (ms_streaming_sensors result) of
        Inl e \<Rightarrow> Inl e | Inr streaming_ids \<Rightarrow>
      case subscript ''message'' (ms_message result) of Inl e \<Rightarrow> Inl e | Inr message \<Rightarrow>
        Inr \<lparr>r_berthing_mode_active = active, r_sensor_ids = request_sensor_ids,
             r_connected_sensors = connected_ids, r_streaming_sensors = streaming_ids,
             r_message = message, r_center_stats = None,
             r_synchronized = get_or (ms_synchronized result) False,
             r_last_sync_timestamp = ms_last_sync_timestamp result,
             r_sync_quality = ms_sync_quality result\<rparr>)"

definition berthing_mode_off ::
  "string list \<Rightarrow> exn + mode_status \<Rightarrow> berthing_mode_response endpoint_result" where
  "berthing_mode_off request_sensor_ids call =
     (case berthing_mode_off_body request_sensor_ids call of
        Inr response \<Rightarrow> Returns response
      | Inl (Exn msg) \<Rightarrow> Raises (HTTPException 500 msg))"

section \<open>berthing\_data\_core: the data of all sensors\<close>

text \<open>
  An entry of the \<open>sensors\<close> dictionary: what the per-sensor function returned, or the
  record \<open>{sensor_id, status: "error", message}\<close> written by the handler.
\<close>

datatype sensor_entry = Entry fetch_result | Error_entry string string

record all_berthing_data =
  ad_sensors :: "(string \<times> sensor_entry) list"
  ad_count :: nat
  ad_berthing_mode_active :: bool
  ad_synchronized :: bool
  ad_server_timestamp_utc :: real

text \<open>
  The loop of \<open>get_all_berthing_data_core\<close> over \<open>berthing_mode_sensors\<close>, for any per-sensor
  function \<open>fetch\<close> that returns or raises.
\<close>

fun all_data_loop ::
  "(string \<Rightarrow> exn + fetch_result) \<Rightarrow> lidar_manager \<Rightarrow> string list
     \<Rightarrow> (string \<times> sensor_entry) list \<Rightarrow> (string \<times> sensor_entry) list"
where
  "all_data_loop fetch mgr [] result = result"
| "all_data_loop fetch mgr (sensor_id # rest) result =
     (if get_or (stream_active mgr sensor_id) False then
        (case fetch sensor_id of
           Inr sensor_data \<Rightarrow>
             all_data_loop fetch mgr rest (AList.update sensor_id (Entry sensor_data) result)
         | Inl (Exn msg) \<Rightarrow>
             all_data_loop fetch mgr rest
               (AList.update sensor_id (Error_entry sensor_id msg) result))
      else all_data_loop fetch mgr rest result)"

definition get_all_berthing_data_core_with ::
  "(string \<Rightarrow> exn + fetch_result) \<Rightarrow> lidar_manager \<Rightarrow> real \<Rightarrow> all_berthing_data" where
  "get_all_berthing_data_core_with fetch mgr now =
     (let result = all_data_loop fetch mgr (berthing_mode_sensors mgr) []
      in \<lparr>ad_sensors = result, ad_count = length result,
          ad_berthing_mode_active = berthing_mode_active mgr,
          ad_synchronized = sync_coordinator_active mgr,
          ad_server_timestamp_utc = now\<rparr>)"

text \<open>
  \<open>get_all_berthing_data_core\<close> itself; on a manager state of the types above its per-sensor
  function always returns.
\<close>

definition get_all_berthing_data_core :: "lidar_manager \<Rightarrow> real \<Rightarrow> all_berthing_data" where
  "get_all_berthing_data_core mgr now =
     get_all_berthing_data_core_with (\<lambda>sensor_id. Inr (fetch_berthing_data_for_sensor mgr sensor_id))
       mgr now"

text \<open>The entry the loop writes for a sensor.\<close>

definition entry_of :: "(string \<Rightarrow> exn + fetch_result) \<Rightarrow> string \<Rightarrow> sensor_entry" where
  "entry_of fetch sensor_id =
     (case fetch sensor_id of
        Inr sensor_data \<Rightarrow> Entry sensor_data
      | Inl (Exn msg) \<Rightarrow> Error_entry sensor_id msg)"

section \<open>Rounding to a double\<close>

text \<open>
  \<open>fl_exponent\<close> is the binary exponent of a positive real, and \<open>fl\<close> yields a multiple of
  the last-bit unit for that exponent that is at most half a unit away.
\<close>

lemma fl_0 [simp]: "fl 0 = Fin 0"
  by (simp add: fl_def)

lemmas fl_eval = fl_def fl_exponent_def ilog2.simps pow2_def round_half_even_def Let_def

lemma ilog2_bounds: "1 \<le> n \<Longrightarrow> 2 ^ ilog2 n \<le> n \<and> n < 2 * 2 ^ ilog2 n"
proof (induction n rule: ilog2.induct)
  case (1 n)
  show ?case
  proof (cases "n < 2")
    case True
    then have "n = 1" using "1.prems" by simp
    then show ?thesis by (simp add: ilog2.simps)
  next
    case False
    then have ih: "2 ^ ilog2 (n div 2) \<le> n div 2 \<and> n div 2 < 2 * 2 ^ ilog2 (n div 2)"
      using "1.IH" by simp
    have e: "ilog2 n = Suc (ilog2 (n div 2))" using False by (subst ilog2.simps) simp
    show ?thesis unfolding e using ih by simp linarith
  qed
qed

lemma pow2_nonneg: "0 \<le> e \<Longrightarrow> pow2 e = 2 ^ nat e"
  by (simp add: pow2_def)

lemma pow2_neg: "e < 0 \<Longrightarrow> pow2 e = 1 / 2 ^ nat (- e)"
  by (simp add: pow2_def)

lemma fl_exponent_bounds:
  assumes "0 < x"
  shows "pow2 (fl_exponent x) \<le> x \<and> x < pow2 (fl_exponent x + 1)"
proof (cases "1 \<le> x")
  case True
  let ?n = "\<lfloor>x\<rfloor>"
  let ?k = "ilog2 ?n"
  have n: "1 \<le> ?n" using True by simp
  have b: "2 ^ ?k \<le> ?n" "?n < 2 * 2 ^ ?k" using ilog2_bounds [OF n] by simp_all
  have e: "fl_exponent x = int ?k" using True by (simp add: fl_exponent_def)
  have "(2::real) ^ ?k \<le> of_int ?n" using b(1) by (metis of_int_le_iff of_int_numeral of_int_power)
  then have lo: "2 ^ ?k \<le> x" using of_int_floor_le [of x] by linarith
  have "?n + 1 \<le> 2 * 2 ^ ?k" using b(2) by simp
  then have "(of_int (?n + 1) :: real) \<le> of_int (2 * 2 ^ ?k)" by (simp only: of_int_le_iff)
  then have hi: "x < 2 * 2 ^ ?k" using floor_correct [of x] by simp linarith
  have p1: "pow2 (int ?k) = 2 ^ ?k" by (simp add: pow2_def)
  have p2: "pow2 (int ?k + 1) = 2 * 2 ^ ?k" by (simp add: pow2_def nat_add_distrib)
  show ?thesis unfolding e p1 p2 using lo hi by simp
next
  case False
  let ?y = "1 / x"
  let ?m = "\<lceil>?y\<rceil> - 1"
  let ?k = "ilog2 ?m"
  have y: "1 < ?y" using False assms by simp
  then have "2 \<le> \<lceil>?y\<rceil>" by (simp add: le_ceiling_iff)
  then have m: "1 \<le> ?m" by simp
  have b: "2 ^ ?k \<le> ?m" "?m < 2 * 2 ^ ?k" using ilog2_bounds [OF m] by simp_all
  have e: "fl_exponent x = - int ?k - 1" using False by (simp add: fl_exponent_def)
  have my: "of_int ?m < ?y" "?y \<le> of_int ?m + 1"
    using ceiling_correct [of ?y] by simp_all
  have "(2::real) ^ ?k \<le> of_int ?m" using b(1) by (metis of_int_le_iff of_int_numeral of_int_power)
  then have lo: "2 ^ ?k < ?y" using my(1) by linarith
  have "?m + 1 \<le> 2 * 2 ^ ?k" using b(2) by simp
  then have "(of_int (?m + 1) :: real) \<le> of_int (2 * 2 ^ ?k)" by (simp only: of_int_le_iff)
  then have hi: "?y \<le> 2 * 2 ^ ?k" using le_of_int_ceiling [of ?y] by simp linarith
  have p1: "pow2 (- int ?k - 1) = 1 / (2 * 2 ^ ?k)"
    by (simp add: pow2_def nat_add_distrib)
  have p2: "pow2 (- int ?k - 1 + 1) = 1 / 2 ^ ?k"
    by (simp add: pow2_def)
  have a: "1 / (2 * 2 ^ ?k) \<le> x"
    using hi assms by (simp add: field_simps)
  have c: "x < 1 / 2 ^ ?k"
    using lo assms by (simp add: field_simps)
  show ?thesis unfolding e p1 p2 using a c by simp
qed

lemma round_half_even_near: "\<bar>of_int (round_half_even y) - y\<bar> \<le> 1 / 2"
  unfolding round_half_even_def Let_def
  using floor_correct [of y] by (auto simp: abs_if) linarith+
lemma pow2_pos: "0 < pow2 e"
  by (simp add: pow2_def)

lemma fl_nearest:
  assumes "fl x = Fin r" and "x \<noteq> 0" and "q = pow2 (max (fl_exponent \<bar>x\<bar>) (- 1022) - 52)"
  shows "r = of_int (round_half_even (x / q)) * q \<and> \<bar>r - x\<bar> \<le> q / 2"
proof -
  have q: "0 < q" using assms(3) by (simp add: pow2_pos)
  have r: "r = of_int (round_half_even (x / q)) * q"
    using assms by (simp add: fl_def Let_def split: if_splits)
  have "\<bar>of_int (round_half_even (x / q)) - x / q\<bar> * q \<le> 1 / 2 * q"
    using round_half_even_near [of "x / q"] q by (intro mult_right_mono) simp_all
  moreover have "\<bar>of_int (round_half_even (x / q)) - x / q\<bar> * q = \<bar>r - x\<bar>"
  proof -
    have "(of_int (round_half_even (x / q)) - x / q) * q = r - x"
      using q by (simp add: r left_diff_distrib)
    then have "\<bar>r - x\<bar> = \<bar>of_int (round_half_even (x / q)) - x / q\<bar> * \<bar>q\<bar>"
      by (simp only: abs_mult [symmetric])
    then show ?thesis using q by simp
  qed
  ultimately show ?thesis using r by simp
qed

section \<open>Float comparisons\<close>

lemma flt_irrefl [simp]: "\<not> flt a a"
  by (cases a) auto

lemma fle_antisym: "fle a b \<Longrightarrow> fle b a \<Longrightarrow> a = b"
  by (cases a; cases b) (auto simp: fle_def)

lemma fle_trans: "fle a b \<Longrightarrow> fle b c \<Longrightarrow> fle a c"
  by (cases a; cases b; cases c) (auto simp: fle_def)

section \<open>The per-sensor view\<close>

lemma fetch_active_direction:
  "fetch_berthing_data_for_sensor mgr sid = Active v \<Longrightarrow>
     v_direction v = movement_direction (read_is_moving mgr sid) (read_speed mgr sid)"
  by (auto simp: fetch_berthing_data_for_sensor_def read_is_moving_def read_speed_def Let_def
      split: if_splits)

text \<open>
  Claim C5. In every per-sensor view that \<open>fetch_berthing_data_for_sensor\<close> returns for an
  active sensor, the direction is: stationary when \<open>is_moving\<close> is false; approaching when
  \<open>is_moving\<close> is true and the speed is below 0; departing when \<open>is_moving\<close> is true and the
  speed is above 0; lateral when \<open>is_moving\<close> is true and the speed is exactly 0.
\<close>

theorem fetch_direction_classified:
  assumes "fetch_berthing_data_for_sensor mgr sid = Active v"
  shows "(\<not> read_is_moving mgr sid \<longrightarrow> v_direction v = Stationary)
       \<and> (read_is_moving mgr sid \<and> flt (read_speed mgr sid) (Fin 0) \<longrightarrow> v_direction v = Approaching)
       \<and> (read_is_moving mgr sid \<and> fgt (read_speed mgr sid) (Fin 0) \<longrightarrow> v_direction v = Departing)
       \<and> (read_is_moving mgr sid \<and> read_speed mgr sid = Fin 0 \<longrightarrow> v_direction v = Lateral)
       \<and> v_is_moving v = read_is_moving mgr sid"
proof -
  have d: "v_direction v = movement_direction (read_is_moving mgr sid) (read_speed mgr sid)"
    using assms by (rule fetch_active_direction)
  have m: "v_is_moving v = read_is_moving mgr sid"
    using assms
    by (auto simp: fetch_berthing_data_for_sensor_def read_is_moving_def Let_def split: if_splits)
  have "\<not> (flt x (Fin 0) \<and> fgt x (Fin 0))" for x
    by (cases x) (auto simp: fgt_def)
  then show ?thesis
    using d m by (auto simp: movement_direction_def fgt_def)
qed

theorem fetch_direction_classified_witness:
  "fetch_berthing_data_for_sensor two_sensor_manager ''b'' =
     Active (case fetch_berthing_data_for_sensor two_sensor_manager ''b'' of Active v \<Rightarrow> v)
   \<and> read_is_moving two_sensor_manager ''b''
   \<and> fgt (read_speed two_sensor_manager ''b'') (Fin 0)
   \<and> v_direction (case fetch_berthing_data_for_sensor two_sensor_manager ''b'' of Active v \<Rightarrow> v)
       = Departing"
proof -
  let ?r = "fetch_berthing_data_for_sensor two_sensor_manager ''b''"
  have a: "?r = Active (case ?r of Active v \<Rightarrow> v)"
    by (simp add: fetch_berthing_data_for_sensor_def two_sensor_manager_def mk_manager_def Let_def)
  have m: "read_is_moving two_sensor_manager ''b''"
    by (simp add: read_is_moving_def two_sensor_manager_def mk_manager_def mk_stats_def)
  have s: "fgt (read_speed two_sensor_manager ''b'') (Fin 0)"
    by (simp add: read_speed_def two_sensor_manager_def mk_manager_def mk_stats_def fgt_def)
  show ?thesis
    using fetch_direction_classified [OF a] a m s by simp
qed

section \<open>The summary\<close>

lemma is_minimum_unique: "is_minimum m ds \<Longrightarrow> is_minimum m' ds \<Longrightarrow> m = m'"
  by (auto simp: is_minimum_def list_ex_iff list_all_iff intro: fle_antisym)

lemma loop_any_moving:
  "any_moving (summary_loop mgr acc ids) = (any_moving acc \<or> some_moving (sensor_tuples mgr ids))"
  by (induction ids arbitrary: acc)
     (auto simp: summary_step_def some_moving_def stats_tuple_def Let_def split: option.splits)

lemma loop_min_distance:
  assumes "min_distance acc \<noteq> NaN" "fgt (min_distance acc) (Fin 0)"
  shows "(min_distance (summary_loop mgr acc ids) = min_distance acc
          \<or> min_distance (summary_loop mgr acc ids) \<in> set (positive_distances (sensor_tuples mgr ids)))
       \<and> fle (min_distance (summary_loop mgr acc ids)) (min_distance acc)
       \<and> (\<forall>d \<in> set (positive_distances (sensor_tuples mgr ids)). fle (min_distance (summary_loop mgr acc ids)) d)"
  using assms
proof (induction ids arbitrary: acc)
  case Nil
  then show ?case by (simp add: positive_distances_def fle_def)
next
  case (Cons a ids)
  show ?case
  proof (cases "berthing_mode_center_stats mgr a")
    case None
    then show ?thesis using Cons by (simp add: summary_step_def)
  next
    case (Some stats)
    let ?acc' = "summary_step mgr acc a"
    let ?d = "get_or (stable_distance stats) (Fin 0)"
    have m': "min_distance ?acc' = (if flt ?d (min_distance acc) \<and> fgt ?d (Fin 0) then ?d else min_distance acc)"
      using Some by (simp add: summary_step_def Let_def)
    have p1: "min_distance ?acc' \<noteq> NaN" using m' Cons.prems by (cases ?d) (auto simp: fgt_def)
    have p2: "fgt (min_distance ?acc') (Fin 0)" using m' Cons.prems by auto
    note ih = Cons.IH [OF p1 p2]
    have le: "fle (min_distance ?acc') (min_distance acc)"
      using m' Cons.prems by (cases ?d; cases "min_distance acc") (auto simp: fle_def fgt_def)
    have le2: "fgt ?d (Fin 0) \<Longrightarrow> fle (min_distance ?acc') ?d"
      using m' Cons.prems by (cases ?d; cases "min_distance acc") (auto simp: fle_def fgt_def)
    have ps: "positive_distances (sensor_tuples mgr (a # ids)) =
       (if fgt ?d (Fin 0) then [?d] else []) @ positive_distances (sensor_tuples mgr ids)"
      using Some by (simp add: positive_distances_def stats_tuple_def)
    show ?thesis
      using ih le le2 m' unfolding ps
      by (auto intro: fle_trans split: if_splits)
  qed
qed

lemma summary_min_is_minimum:
  assumes "positive_distances (sensor_tuples mgr (berthing_mode_sensors mgr)) \<noteq> []"
  shows "is_minimum (min_distance (summary_loop mgr summary_init (berthing_mode_sensors mgr)))
           (positive_distances (sensor_tuples mgr (berthing_mode_sensors mgr)))"
proof -
  let ?ps = "positive_distances (sensor_tuples mgr (berthing_mode_sensors mgr))"
  let ?m = "min_distance (summary_loop mgr summary_init (berthing_mode_sensors mgr))"
  have i: "min_distance summary_init \<noteq> NaN" "fgt (min_distance summary_init) (Fin 0)"
    by (simp_all add: summary_init_def fgt_def)
  note l = loop_min_distance [OF i, of mgr "berthing_mode_sensors mgr"]
  have all: "\<forall>d \<in> set ?ps. fle ?m d" using l by blast
  have "?m \<in> set ?ps"
  proof (cases "?m = PInf")
    case False
    then show ?thesis using l by (auto simp: summary_init_def)
  next
    case True
    obtain d where d: "d \<in> set ?ps" using assms by (cases ?ps) auto
    then have "fle PInf d" using all True by auto
    then have "d = PInf" by (cases d) (auto simp: fle_def)
    then show ?thesis using d True by simp
  qed
  then show ?thesis using all by (auto simp: is_minimum_def list_ex_iff list_all_iff)
qed

lemma summary_min_empty:
  assumes "positive_distances (sensor_tuples mgr (berthing_mode_sensors mgr)) = []"
  shows "min_distance (summary_loop mgr summary_init (berthing_mode_sensors mgr)) = PInf"
proof -
  have i: "min_distance summary_init \<noteq> NaN" "fgt (min_distance summary_init) (Fin 0)"
    by (simp_all add: summary_init_def fgt_def)
  show ?thesis
    using loop_min_distance [OF i, of mgr "berthing_mode_sensors mgr"] assms
    by (simp add: summary_init_def)
qed

text \<open>
  Claim C1. Let \<open>ts\<close> be the tuples \<open>(distance, speed, is_moving)\<close> that
  \<open>get_berthing_summary\<close> reads. With berthing mode inactive the status is inactive whatever
  the tuples are. With berthing mode active and at least one strictly positive distance,
  the positive distances have a minimum \<open>m\<close> (distances that are not above 0 take no part),
  and with \<open>any_moving\<close> the disjunction of the \<open>is_moving\<close> flags the status is:
  final approach when moving and \<open>m < 5\<close>; approaching when moving and \<open>5 \<le> m < 20\<close>;
  monitoring when moving and \<open>20 \<le> m\<close>; berthed when not moving and \<open>m < 1\<close>; standby when
  not moving and \<open>1 \<le> m\<close>. The reported \<open>min_distance\<close> is \<open>m\<close> rounded to three places. For
  the two sensors (0, 0) and (15.0, +0.1, moving) this gives 15.0 and approaching.
\<close>

theorem berthing_summary_status:
  assumes ts: "ts = sensor_tuples mgr (berthing_mode_sensors mgr)"
    and st: "st = sum_overall_status (get_berthing_summary mgr)"
  shows "(\<not> berthing_mode_active mgr \<longrightarrow> st = Inactive)
       \<and> (positive_distances ts \<noteq> [] \<longrightarrow> (\<exists>m. is_minimum m (positive_distances ts)))
       \<and> (berthing_mode_active mgr \<and> is_minimum m (positive_distances ts) \<longrightarrow>
            (some_moving ts \<and> flt m (Fin 5) \<longrightarrow> st = Final_approach)
          \<and> (some_moving ts \<and> fle (Fin 5) m \<and> flt m (Fin 20) \<longrightarrow> st = Status_approaching)
          \<and> (some_moving ts \<and> fle (Fin 20) m \<longrightarrow> st = Monitoring)
          \<and> (\<not> some_moving ts \<and> flt m (Fin 1) \<longrightarrow> st = Berthed)
          \<and> (\<not> some_moving ts \<and> fle (Fin 1) m \<longrightarrow> st = Standby)
          \<and> sum_min_distance (get_berthing_summary mgr) =
              (if m = PInf then None else Some (py_round m 3)))"
proof -
  let ?acc = "summary_loop mgr summary_init (berthing_mode_sensors mgr)"
  have mv: "any_moving ?acc = some_moving ts"
    by (simp add: loop_any_moving ts summary_init_def)
  have st': "st = determine_overall_status (berthing_mode_active mgr) (some_moving ts) (min_distance ?acc)"
    by (simp add: st get_berthing_summary_def Let_def mv)
  have md: "sum_min_distance (get_berthing_summary mgr) =
      (if min_distance ?acc = PInf then None else Some (py_round (min_distance ?acc) 3))"
    by (simp add: get_berthing_summary_def Let_def)
  have a: "\<not> berthing_mode_active mgr \<longrightarrow> st = Inactive"
    by (simp add: st' determine_overall_status_def)
  have b: "positive_distances ts \<noteq> [] \<longrightarrow> (\<exists>m. is_minimum m (positive_distances ts))"
    using summary_min_is_minimum [of mgr] ts by blast
  have c: "st = determine_overall_status True (some_moving ts) m
         \<and> sum_min_distance (get_berthing_summary mgr) = (if m = PInf then None else Some (py_round m 3))"
    if act: "berthing_mode_active mgr" and mi: "is_minimum m (positive_distances ts)"
  proof -
    have "positive_distances ts \<noteq> []" using mi by (auto simp: is_minimum_def list_ex_iff)
    then have "is_minimum (min_distance ?acc) (positive_distances ts)"
      using summary_min_is_minimum [of mgr] ts by simp
    then have "min_distance ?acc = m" using mi by (rule is_minimum_unique)
    then show ?thesis using st' md act by simp
  qed
  have d: "fle (Fin k) m \<Longrightarrow> \<not> flt m (Fin k)" for k
    by (simp add: fle_def)
  have e: "fle (Fin 5) m \<Longrightarrow> \<not> flt m (Fin 1)"
    by (cases m) (auto simp: fle_def)
  have f: "flt m (Fin 5) \<Longrightarrow> flt m (Fin 20)"
    by (cases m) auto
  show ?thesis
    using a b c d f by (auto simp: determine_overall_status_def)
qed

theorem berthing_summary_status_witness:
  "berthing_mode_active two_sensor_manager
   \<and> is_minimum (Fin 15) (positive_distances (sensor_tuples two_sensor_manager (berthing_mode_sensors two_sensor_manager)))
   \<and> some_moving (sensor_tuples two_sensor_manager (berthing_mode_sensors two_sensor_manager))
   \<and> fle (Fin 5) (Fin 15) \<and> flt (Fin 15) (Fin 20)
   \<and> sum_overall_status (get_berthing_summary two_sensor_manager) = Status_approaching
   \<and> sum_min_distance (get_berthing_summary two_sensor_manager) = Some (Fin 15)"
proof -
  let ?ts = "sensor_tuples two_sensor_manager (berthing_mode_sensors two_sensor_manager)"
  have t: "?ts = [(Fin 0, Fin 0, False), (Fin 15, Fin (1 / 10), True)]"
    by (simp add: two_sensor_manager_def mk_manager_def mk_stats_def stats_tuple_def empty_stats_def)
  have a: "berthing_mode_active two_sensor_manager"
    by (simp add: two_sensor_manager_def mk_manager_def)
  have m: "is_minimum (Fin 15) (positive_distances ?ts)"
    unfolding t by (simp add: positive_distances_def is_minimum_def fgt_def fle_def)
  have s: "some_moving ?ts" unfolding t by (simp add: some_moving_def)
  have r: "py_round (Fin 15) 3 = Fin 15"
    by (simp add: round_half_even_def)
  show ?thesis
    using berthing_summary_status [OF refl refl, of two_sensor_manager "Fin 15"] a m s r
    by (simp add: fle_def)
qed

text \<open>
  The statement "with berthing mode active and no strictly positive distance the status is
  standby, whether or not a sensor is flagged as moving" fails: one sensor flagged as moving
  whose distance is 0 gives monitoring.
\<close>

theorem summary_no_reading_moving_counterexample:
  "berthing_mode_active moving_unread_manager
   \<and> positive_distances (sensor_tuples moving_unread_manager
         (berthing_mode_sensors moving_unread_manager)) = []
   \<and> sum_overall_status (get_berthing_summary moving_unread_manager) = Monitoring
   \<and> sum_overall_status (get_berthing_summary moving_unread_manager) \<noteq> Standby"
  by (simp add: moving_unread_manager_def mk_manager_def mk_stats_def stats_tuple_def
      empty_stats_def positive_distances_def fgt_def get_berthing_summary_def summary_init_def
      summary_step_def determine_overall_status_def Let_def)

text \<open>
  Claim C2, as amended. With berthing mode active and no sensor reporting a strictly positive
  distance, the overall status is standby when no sensor is flagged as moving and monitoring
  when one is, and the reported \<open>min_distance\<close> is absent.
\<close>

theorem summary_no_reading:
  assumes "berthing_mode_active mgr"
    and "positive_distances (sensor_tuples mgr (berthing_mode_sensors mgr)) = []"
  shows "sum_overall_status (get_berthing_summary mgr) =
           (if some_moving (sensor_tuples mgr (berthing_mode_sensors mgr))
            then Monitoring else Standby)
       \<and> sum_min_distance (get_berthing_summary mgr) = None"
proof -
  let ?acc = "summary_loop mgr summary_init (berthing_mode_sensors mgr)"
  have m: "min_distance ?acc = PInf"
    using assms(2) by (rule summary_min_empty)
  have mv: "any_moving ?acc = some_moving (sensor_tuples mgr (berthing_mode_sensors mgr))"
    by (simp add: loop_any_moving summary_init_def)
  show ?thesis
    using assms(1) by (simp add: get_berthing_summary_def Let_def m mv determine_overall_status_def)
qed

theorem summary_no_reading_witness:
  "berthing_mode_active (mk_manager True [(''a'', mk_stats (Fin 0) (Fin 0) False)])
   \<and> positive_distances (sensor_tuples (mk_manager True [(''a'', mk_stats (Fin 0) (Fin 0) False)])
        (berthing_mode_sensors (mk_manager True [(''a'', mk_stats (Fin 0) (Fin 0) False)]))) = []
   \<and> sum_overall_status (get_berthing_summary
        (mk_manager True [(''a'', mk_stats (Fin 0) (Fin 0) False)])) = Standby
   \<and> sum_min_distance (get_berthing_summary
        (mk_manager True [(''a'', mk_stats (Fin 0) (Fin 0) False)])) = None"
proof -
  let ?m = "mk_manager True [(''a'', mk_stats (Fin 0) (Fin 0) False)]"
  have t: "sensor_tuples ?m (berthing_mode_sensors ?m) = [(Fin 0, Fin 0, False)]"
    by (simp add: mk_manager_def mk_stats_def stats_tuple_def empty_stats_def)
  have a: "berthing_mode_active ?m" by (simp add: mk_manager_def)
  have p: "positive_distances (sensor_tuples ?m (berthing_mode_sensors ?m)) = []"
    unfolding t by (simp add: positive_distances_def fgt_def)
  have s: "\<not> some_moving (sensor_tuples ?m (berthing_mode_sensors ?m))"
    unfolding t by (simp add: some_moving_def)
  show ?thesis using summary_no_reading [OF a p] a p s by simp
qed

section \<open>The history\<close>

lemma round_half_even_0 [simp]: "round_half_even 0 = 0"
  by (simp add: round_half_even_def)

lemma py_round_0 [simp]: "py_round (Fin 0) n = Fin 0"
  by simp

lemma fdiv_positive: "fgt dt (Fin 0) \<Longrightarrow> \<exists>q. fdiv x dt = Inr q"
  by (cases dt; cases x) (auto simp: fgt_def)

lemma history_speed_total: "\<exists>v. history_speed h i = Inr v"
  using fdiv_positive
  by (auto simp: history_speed_def Let_def split: prod.splits)

lemma history_entry_total: "\<exists>e. history_entry_at h i = Inr e"
  using history_speed_total [of h i] by (auto simp: history_entry_at_def)

lemma format_history_eq:
  "format_history h is acc = Inr (acc @ map (\<lambda>i. projr (history_entry_at h i)) is)"
proof (induction "is" arbitrary: acc)
  case Nil
  then show ?case by simp
next
  case (Cons i "is")
  obtain e where e: "history_entry_at h i = Inr e" using history_entry_total by blast
  show ?case by (simp add: e Cons.IH)
qed

lemma history_entry_fields:
  assumes "history_entry_at h i = Inr e"
  shows "h_timestamp e = fst (h ! i)" and "h_distance e = py_round (snd (h ! i)) 3"
    and "\<exists>v. history_speed h i = Inr v \<and> h_speed e = py_round v 4"
  using assms by (auto simp: history_entry_at_def split: sum.splits)

lemma get_berthing_history_found:
  assumes "vessel_speed_calculators mgr sid = Some calc"
    and "h = limit_history (distance_history calc) limit"
  shows "\<exists>r. get_berthing_history mgr sid limit = Inr r
           \<and> hr_history r = map (\<lambda>i. projr (history_entry_at h i)) [0..<length h]
           \<and> hr_count r = length (hr_history r)
           \<and> hr_oldest_timestamp r =
                (if hr_history r \<noteq> [] then h_timestamp (hd (hr_history r)) else Fin 0)
           \<and> hr_latest_timestamp r =
                (if hr_history r \<noteq> [] then h_timestamp (last (hr_history r)) else Fin 0)"
  using assms by (simp add: get_berthing_history_def Let_def format_history_eq)

lemma limit_history_positive:
  assumes "0 < limit"
  shows "limit_history xs limit = drop (length xs - nat limit) xs"
proof (cases "limit < int (length xs)")
  case True
  then have "nat (int (length xs) - limit) = length xs - nat limit" using assms by linarith
  then show ?thesis using True assms by (simp add: limit_history_def py_slice_from_def Let_def)
next
  case False
  then show ?thesis by (simp add: limit_history_def)
qed

lemma history_speed_cases:
  assumes "history_speed h i = Inr v"
  shows "(i = 0 \<longrightarrow> v = Fin 0)
       \<and> (0 < i \<and> \<not> fgt (fsub (fst (h ! i)) (fst (h ! (i - 1)))) (Fin 0) \<longrightarrow> v = Fin 0)
       \<and> (0 < i \<and> fgt (fsub (fst (h ! i)) (fst (h ! (i - 1)))) (Fin 0) \<longrightarrow>
            fdiv (fsub (snd (h ! i)) (snd (h ! (i - 1))))
                 (fsub (fst (h ! i)) (fst (h ! (i - 1)))) = Inr v)"
  using assms by (auto simp: history_speed_def Let_def split: prod.splits if_splits)

lemma history_speed_finite:
  assumes v: "history_speed h i = Inr v" and i: "0 < i"
    and cur: "h ! i = (Fin t, Fin d)" and prev: "h ! (i - 1) = (Fin t', Fin d')"
    and dt: "fl (t - t') = Fin dt" "0 < dt" and dd: "fl (d - d') = Fin dd"
  shows "v = fl (dd / dt)"
proof -
  have g: "fgt (fsub (fst (h ! i)) (fst (h ! (i - 1)))) (Fin 0)"
    unfolding cur prev using dt by (simp add: fgt_def)
  have "fdiv (fsub (snd (h ! i)) (snd (h ! (i - 1)))) (fsub (fst (h ! i)) (fst (h ! (i - 1)))) = Inr v"
    using history_speed_cases [OF v] i g by blast
  then show ?thesis unfolding cur prev using dt dd by simp
qed

text \<open>
  The statement "each later entry's speed is \<open>(d_i - d_{i-1}) / (t_i - t_{i-1})\<close> when the
  time difference is positive" fails for the returned entries, which hold that quotient
  rounded to four places: from 0 m to 1 m in 32768 s the quotient is \<open>1 / 32768\<close> and the entry's
  speed is 0.
\<close>

theorem history_speed_unrounded_counterexample:
  "get_berthing_history (history_manager [(Fin 0, Fin 0), (Fin 32768, Fin 1)]) ''a'' 100 =
     Inr \<lparr>hr_sensor_id = ''a'',
          hr_history =
            [\<lparr>h_timestamp = Fin 0, h_distance = Fin 0, h_speed = Fin 0, h_speed_mm_s = Fin 0\<rparr>,
             \<lparr>h_timestamp = Fin 32768, h_distance = Fin 1, h_speed = Fin 0,
               h_speed_mm_s = Fin 0\<rparr>],
          hr_count = 2, hr_oldest_timestamp = Fin 0, hr_latest_timestamp = Fin 32768\<rparr>
   \<and> fgt (fsub (Fin 32768) (Fin 0)) (Fin 0)
   \<and> fdiv (fsub (Fin 1) (Fin 0)) (fsub (Fin 32768) (Fin 0)) = Inr (Fin (1 / 32768))
   \<and> Fin (1 / 32768) \<noteq> Fin 0"
proof -
  have a: "fl 1 = Fin 1" "fl 32768 = Fin 32768" "fl (1 / 32768) = Fin (1 / 32768)"
    "fl (1000 / 32768) = Fin (1000 / 32768)"
    by (simp_all add: fl_eval)
  have s: "fsub (Fin 1) (Fin 0) = Fin 1" "fsub (Fin 32768) (Fin 0) = Fin 32768"
    using a by simp_all
  have d: "fdiv (Fin 1) (Fin 32768) = Inr (Fin (1 / 32768))"
    using a by simp
  have m: "fscale (Fin (1 / 32768)) 1000 = Fin (1000 / 32768)"
    using a by simp
  have e0: "history_entry_at [(Fin 0, Fin 0), (Fin 32768, Fin 1)] 0 =
      Inr \<lparr>h_timestamp = Fin 0, h_distance = Fin 0, h_speed = Fin 0, h_speed_mm_s = Fin 0\<rparr>"
    by (simp add: history_entry_at_def history_speed_def)
  have e1: "history_entry_at [(Fin 0, Fin 0), (Fin 32768, Fin 1)] (Suc 0) =
      Inr \<lparr>h_timestamp = Fin 32768, h_distance = Fin 1, h_speed = Fin 0, h_speed_mm_s = Fin 0\<rparr>"
    unfolding history_entry_at_def history_speed_def
    by (simp add: s d m fgt_def round_half_even_def del: fsub.simps fdiv.simps fscale.simps)
  have u: "[0..<2] = [0, 1]" by (simp add: upt_conv_Cons)
  have g: "get_berthing_history (history_manager [(Fin 0, Fin 0), (Fin 32768, Fin 1)]) ''a'' 100 =
     Inr \<lparr>hr_sensor_id = ''a'',
          hr_history =
            [\<lparr>h_timestamp = Fin 0, h_distance = Fin 0, h_speed = Fin 0, h_speed_mm_s = Fin 0\<rparr>,
             \<lparr>h_timestamp = Fin 32768, h_distance = Fin 1, h_speed = Fin 0,
               h_speed_mm_s = Fin 0\<rparr>],
          hr_count = 2, hr_oldest_timestamp = Fin 0, hr_latest_timestamp = Fin 32768\<rparr>"
    by (simp add: get_berthing_history_def history_manager_def limit_history_def Let_def u e0 e1)
  show ?thesis using g s d by (simp add: fgt_def)
qed

text \<open>
  Claim C8, as amended. For every sensor with a speed calculator and every limit,
  \<open>get_berthing_history\<close> returns a history (no division by zero, no other error), one entry
  for each sample \<open>(t_i, d_i)\<close> of the limited history. The first entry's speed is 0.0; a
  later entry's speed is \<open>round((d_i - d_{i-1}) / (t_i - t_{i-1}), 4)\<close>, the two differences and
  the quotient computed in float arithmetic, when \<open>t_i - t_{i-1} > 0\<close>, and 0.0 otherwise. A
  history of zero or one samples yields no nonzero speed.
\<close>

theorem history_speed_rounded:
  assumes calc: "vessel_speed_calculators mgr sid = Some calc"
    and h: "h = limit_history (distance_history calc) limit"
  shows "\<exists>r. get_berthing_history mgr sid limit = Inr r
         \<and> length (hr_history r) = length h
         \<and> (\<forall>i < length h.
              (i = 0 \<longrightarrow> h_speed (hr_history r ! i) = Fin 0)
            \<and> (0 < i \<and> \<not> fgt (fsub (fst (h ! i)) (fst (h ! (i - 1)))) (Fin 0) \<longrightarrow>
                 h_speed (hr_history r ! i) = Fin 0)
            \<and> (0 < i \<and> fgt (fsub (fst (h ! i)) (fst (h ! (i - 1)))) (Fin 0) \<longrightarrow>
                 (\<exists>q. fdiv (fsub (snd (h ! i)) (snd (h ! (i - 1))))
                         (fsub (fst (h ! i)) (fst (h ! (i - 1)))) = Inr q
                      \<and> h_speed (hr_history r ! i) = py_round q 4))
            \<and> (\<forall>t d t' d' dt dd. 0 < i \<and> h ! i = (Fin t, Fin d) \<and> h ! (i - 1) = (Fin t', Fin d')
                   \<and> fl (t - t') = Fin dt \<and> 0 < dt \<and> fl (d - d') = Fin dd \<longrightarrow>
                 h_speed (hr_history r ! i) = py_round (fl (dd / dt)) 4))
         \<and> (length h \<le> 1 \<longrightarrow> list_all (\<lambda>e. h_speed e = Fin 0) (hr_history r))"
proof -
  obtain r where r: "get_berthing_history mgr sid limit = Inr r"
    and hist: "hr_history r = map (\<lambda>i. projr (history_entry_at h i)) [0..<length h]"
    using get_berthing_history_found [OF calc h] by blast
  have len: "length (hr_history r) = length h" by (simp add: hist)
  have sp: "\<exists>v. history_speed h i = Inr v \<and> h_speed (hr_history r ! i) = py_round v 4"
    if "i < length h" for i
  proof -
    obtain e where e: "history_entry_at h i = Inr e" using history_entry_total by blast
    have "hr_history r ! i = e" using that by (simp add: hist e)
    then show ?thesis using history_entry_fields(3) [OF e] by simp
  qed
  have "(i = 0 \<longrightarrow> h_speed (hr_history r ! i) = Fin 0)
      \<and> (0 < i \<and> \<not> fgt (fsub (fst (h ! i)) (fst (h ! (i - 1)))) (Fin 0) \<longrightarrow>
           h_speed (hr_history r ! i) = Fin 0)
      \<and> (0 < i \<and> fgt (fsub (fst (h ! i)) (fst (h ! (i - 1)))) (Fin 0) \<longrightarrow>
           (\<exists>q. fdiv (fsub (snd (h ! i)) (snd (h ! (i - 1))))
                   (fsub (fst (h ! i)) (fst (h ! (i - 1)))) = Inr q
                \<and> h_speed (hr_history r ! i) = py_round q 4))
      \<and> (\<forall>t d t' d' dt dd. 0 < i \<and> h ! i = (Fin t, Fin d) \<and> h ! (i - 1) = (Fin t', Fin d')
             \<and> fl (t - t') = Fin dt \<and> 0 < dt \<and> fl (d - d') = Fin dd \<longrightarrow>
           h_speed (hr_history r ! i) = py_round (fl (dd / dt)) 4)"
    if i: "i < length h" for i
  proof -
    obtain v where v: "history_speed h i = Inr v"
      and hs: "h_speed (hr_history r ! i) = py_round v 4"
      using sp [OF i] by blast
    note c = history_speed_cases [OF v]
    have a: "i = 0 \<longrightarrow> h_speed (hr_history r ! i) = Fin 0"
      using c hs by auto
    have b: "0 < i \<and> \<not> fgt (fsub (fst (h ! i)) (fst (h ! (i - 1)))) (Fin 0) \<longrightarrow>
           h_speed (hr_history r ! i) = Fin 0"
      using c hs by auto
    have d: "0 < i \<and> fgt (fsub (fst (h ! i)) (fst (h ! (i - 1)))) (Fin 0) \<longrightarrow>
           (\<exists>q. fdiv (fsub (snd (h ! i)) (snd (h ! (i - 1))))
                   (fsub (fst (h ! i)) (fst (h ! (i - 1)))) = Inr q
                \<and> h_speed (hr_history r ! i) = py_round q 4)"
      using c hs by blast
    have e: "\<forall>t d t' d' dt dd. 0 < i \<and> h ! i = (Fin t, Fin d) \<and> h ! (i - 1) = (Fin t', Fin d')
             \<and> fl (t - t') = Fin dt \<and> 0 < dt \<and> fl (d - d') = Fin dd \<longrightarrow>
           h_speed (hr_history r ! i) = py_round (fl (dd / dt)) 4"
      using history_speed_finite [OF v] hs by blast
    show ?thesis using a b d e by blast
  qed
  note main = this
  have "list_all (\<lambda>e. h_speed e = Fin 0) (hr_history r)" if "length h \<le> 1"
  proof -
    have "h_speed (hr_history r ! i) = Fin 0" if "i < length (hr_history r)" for i
    proof -
      have "i = 0" using that \<open>length h \<le> 1\<close> len by simp
      then show ?thesis using main [of i] that len by simp
    qed
    then show ?thesis by (auto simp: list_all_length)
  qed
  then show ?thesis using r len main by blast
qed

theorem history_speed_rounded_witness:
  "vessel_speed_calculators
     (history_manager [(Fin 0, Fin 0), (Fin 20000, Fin 1), (Fin 20000, Fin 2)]) ''a''
     = Some \<lparr>distance_history = [(Fin 0, Fin 0), (Fin 20000, Fin 1), (Fin 20000, Fin 2)]\<rparr>
   \<and> (\<exists>r. get_berthing_history
             (history_manager [(Fin 0, Fin 0), (Fin 20000, Fin 1), (Fin 20000, Fin 2)])
             ''a'' 100 = Inr r
        \<and> length (hr_history r) = 3
        \<and> h_speed (hr_history r ! 0) = Fin 0
        \<and> h_speed (hr_history r ! 1) = Fin (1 / 10000)
        \<and> h_speed (hr_history r ! 2) = Fin 0)"
proof -
  let ?h = "[(Fin 0, Fin 0), (Fin 20000, Fin 1), (Fin 20000, Fin 2)]"
  let ?c = "\<lparr>distance_history = ?h\<rparr>"
  have c: "vessel_speed_calculators (history_manager ?h) ''a'' = Some ?c"
    by (simp add: history_manager_def)
  have h: "?h = limit_history (distance_history ?c) 100"
    by (simp add: limit_history_def)
  have f: "fl (20000 - 0) = Fin 20000" "fl (1 - 0) = Fin 1"
    "fl (1 / 20000) = Fin (7378697629483821 / 2 ^ 67)"
    by (simp_all add: fl_eval)
  have q: "py_round (fl (1 / 20000)) 4 = Fin (1 / 10000)"
    unfolding f by (simp add: round_half_even_def)
  have z: "\<not> fgt (fsub (Fin 20000) (Fin 20000)) (Fin 0)"
    by (simp add: fgt_def)
  obtain r where g: "get_berthing_history (history_manager ?h) ''a'' 100 = Inr r"
    and l: "length (hr_history r) = length ?h"
    and a: "\<forall>i < length ?h.
              (i = 0 \<longrightarrow> h_speed (hr_history r ! i) = Fin 0)
            \<and> (0 < i \<and> \<not> fgt (fsub (fst (?h ! i)) (fst (?h ! (i - 1)))) (Fin 0) \<longrightarrow>
                 h_speed (hr_history r ! i) = Fin 0)
            \<and> (0 < i \<and> fgt (fsub (fst (?h ! i)) (fst (?h ! (i - 1)))) (Fin 0) \<longrightarrow>
                 (\<exists>q. fdiv (fsub (snd (?h ! i)) (snd (?h ! (i - 1))))
                         (fsub (fst (?h ! i)) (fst (?h ! (i - 1)))) = Inr q
                      \<and> h_speed (hr_history r ! i) = py_round q 4))
            \<and> (\<forall>t d t' d' dt dd. 0 < i \<and> ?h ! i = (Fin t, Fin d) \<and> ?h ! (i - 1) = (Fin t', Fin d')
                   \<and> fl (t - t') = Fin dt \<and> 0 < dt \<and> fl (d - d') = Fin dd \<longrightarrow>
                 h_speed (hr_history r ! i) = py_round (fl (dd / dt)) 4)"
    using history_speed_rounded [OF c h] by blast
  have s0: "h_speed (hr_history r ! 0) = Fin 0" using a [rule_format, of 0] by simp
  have i1: "(1::nat) < length ?h" by simp
  have "h_speed (hr_history r ! 1) = py_round (fl (1 / 20000)) 4"
    using a [rule_format, OF i1, THEN conjunct2, THEN conjunct2, THEN conjunct2, rule_format,
        of 20000 1 0 0 20000 1] f(1,2)
    by simp
  then have s1: "h_speed (hr_history r ! 1) = Fin (1 / 10000)" by (simp only: q)
  have i2: "(2::nat) < length ?h" by simp
  have s2: "h_speed (hr_history r ! 2) = Fin 0"
    using a [rule_format, OF i2, THEN conjunct2, THEN conjunct1] z by simp
  show ?thesis using c g l s0 s1 s2 by auto
qed

text \<open>
  Claim C10. For every sensor with a speed calculator whose distance history holds \<open>n\<close>
  samples and every positive limit \<open>L\<close>, \<open>get_berthing_history\<close> returns exactly
  \<open>min(L, n)\<close> entries; they are the last \<open>min(L, n)\<close> samples of the history in their
  order (each entry carries its sample's timestamp and its distance rounded to three
  places); \<open>count\<close> is the number of entries; \<open>oldest_timestamp\<close> and \<open>latest_timestamp\<close> are
  the timestamps of the first and the last returned entry, or 0 when the history is empty.
\<close>

theorem history_limit:
  assumes calc: "vessel_speed_calculators mgr sid = Some calc"
    and lim: "0 < limit"
    and n: "n = length (distance_history calc)"
    and k: "k = min (nat limit) n"
  shows "\<exists>r. get_berthing_history mgr sid limit = Inr r
         \<and> length (hr_history r) = k
         \<and> map h_timestamp (hr_history r) = map fst (drop (n - k) (distance_history calc))
         \<and> map h_distance (hr_history r) =
             map (\<lambda>p. py_round (snd p) 3) (drop (n - k) (distance_history calc))
         \<and> hr_count r = length (hr_history r)
         \<and> hr_oldest_timestamp r = (if n = 0 then Fin 0 else h_timestamp (hd (hr_history r)))
         \<and> hr_latest_timestamp r = (if n = 0 then Fin 0 else h_timestamp (last (hr_history r)))
         \<and> (n \<noteq> 0 \<longrightarrow> hr_oldest_timestamp r = fst (distance_history calc ! (n - k))
                      \<and> hr_latest_timestamp r = fst (last (distance_history calc)))"
proof -
  let ?xs = "distance_history calc"
  define h where "h = limit_history ?xs limit"
  have "n - nat limit = n - k" using k by (simp add: min_def)
  then have hdrop: "h = drop (n - k) ?xs"
    using lim n by (simp add: h_def limit_history_positive)
  have lh: "length h = k" using n k by (simp add: hdrop)
  obtain r where r: "get_berthing_history mgr sid limit = Inr r"
    and hist: "hr_history r = map (\<lambda>i. projr (history_entry_at h i)) [0..<length h]"
    and cnt: "hr_count r = length (hr_history r)"
    and old: "hr_oldest_timestamp r =
                (if hr_history r \<noteq> [] then h_timestamp (hd (hr_history r)) else Fin 0)"
    and lat: "hr_latest_timestamp r =
                (if hr_history r \<noteq> [] then h_timestamp (last (hr_history r)) else Fin 0)"
    using get_berthing_history_found [OF calc h_def] by blast
  have len: "length (hr_history r) = k" by (simp add: hist lh)
  have ent: "h_timestamp (hr_history r ! i) = fst (h ! i)
           \<and> h_distance (hr_history r ! i) = py_round (snd (h ! i)) 3" if "i < length h" for i
  proof -
    obtain e where e: "history_entry_at h i = Inr e" using history_entry_total by blast
    have "hr_history r ! i = e" using that by (simp add: hist e)
    then show ?thesis using history_entry_fields(1,2) [OF e] by simp
  qed
  have ts: "map h_timestamp (hr_history r) = map fst h"
    using ent len lh by (auto intro: nth_equalityI)
  have ds: "map h_distance (hr_history r) = map (\<lambda>p. py_round (snd p) 3) h"
    using ent len lh by (auto intro: nth_equalityI)
  have k0: "k = 0 \<longleftrightarrow> n = 0" using lim k by auto
  have e0: "hr_history r = [] \<longleftrightarrow> n = 0" using len k0 by auto
  have edge: "hr_oldest_timestamp r = fst (?xs ! (n - k))
            \<and> hr_latest_timestamp r = fst (last ?xs)" if "n \<noteq> 0"
  proof -
    have ne: "hr_history r \<noteq> []" "h \<noteq> []" "?xs \<noteq> []"
      using that e0 lh k0 n by auto
    have "h_timestamp (hd (hr_history r)) = hd (map h_timestamp (hr_history r))"
      using ne by (simp add: hd_map)
    also have "\<dots> = fst (hd h)" using ne by (simp add: ts hd_map)
    also have "\<dots> = fst (?xs ! (n - k))" using ne n k by (simp add: hdrop hd_drop_conv_nth)
    finally have o: "h_timestamp (hd (hr_history r)) = fst (?xs ! (n - k))" .
    have "h_timestamp (last (hr_history r)) = last (map h_timestamp (hr_history r))"
      using ne by (simp add: last_map)
    also have "\<dots> = fst (last h)" using ne by (simp add: ts last_map)
    also have "\<dots> = fst (last ?xs)" using ne n k by (simp add: hdrop)
    finally have l: "h_timestamp (last (hr_history r)) = fst (last ?xs)" .
    show ?thesis using o l old lat ne by simp
  qed
  show ?thesis
    using r len ts ds cnt old lat e0 edge unfolding hdrop by auto
qed

theorem history_limit_witness:
  "vessel_speed_calculators
     (history_manager [(Fin 0, Fin 0), (Fin 3, Fin 1), (Fin 3, Fin 1), (Fin 4, Fin 6)]) ''a''
     = Some \<lparr>distance_history = [(Fin 0, Fin 0), (Fin 3, Fin 1), (Fin 3, Fin 1), (Fin 4, Fin 6)]\<rparr>
   \<and> (0::int) < 3
   \<and> (\<exists>r. get_berthing_history
             (history_manager [(Fin 0, Fin 0), (Fin 3, Fin 1), (Fin 3, Fin 1), (Fin 4, Fin 6)])
             ''a'' 3 = Inr r
        \<and> length (hr_history r) = 3
        \<and> map h_timestamp (hr_history r) = [Fin 3, Fin 3, Fin 4]
        \<and> hr_count r = 3
        \<and> hr_oldest_timestamp r = Fin 3
        \<and> hr_latest_timestamp r = Fin 4)"
proof -
  let ?h = "[(Fin 0, Fin 0), (Fin 3, Fin 1), (Fin 3, Fin 1), (Fin 4, Fin 6)]"
  let ?c = "\<lparr>distance_history = ?h\<rparr>"
  have c: "vessel_speed_calculators (history_manager ?h) ''a'' = Some ?c"
    by (simp add: history_manager_def)
  have l: "(0::int) < 3" by simp
  have n: "(4::nat) = length (distance_history ?c)" by simp
  have k: "(3::nat) = min (nat 3) 4" by simp
  show ?thesis
    using history_limit [OF c l n k] c by auto
qed

section \<open>The simulated device: commands and session state\<close>

lemma length_CMD [simp]: "length CMD_DATA_START = 11" "length CMD_DATA_STOP = 11"
  by (simp_all add: CMD_DATA_START_def CMD_DATA_STOP_def)

lemma take_11_eq_command:
  assumes "length c = 11"
  shows "(11 \<le> length (take 1024 dg) \<and> take 11 (take 1024 dg) = take 11 c) = (take 11 dg = c)"
proof -
  have "take 11 (take 1024 dg) = take 11 dg" by (simp add: min_def)
  moreover have "take 11 dg = c \<Longrightarrow> 11 \<le> length dg"
    using assms by (metis length_take min.cobounded1)
  ultimately show ?thesis using assms by auto
qed

text \<open>
  Claim C3. For every received datagram, the command listener takes it for a start command,
  and calls \<open>dataStart_RT_B\<close>, if and only if it is at least 11 bytes long and its first 11
  bytes are the start constant; for a stop command, and calls \<open>dataStop\<close>, if and only if its
  first 11 bytes are the stop constant; otherwise it leaves the session as it is and goes
  on listening. The bytes after the 11th make no difference.
\<close>

theorem command_listener_recognition:
  "command_listener_iter self os (Recv_datagram dg) =
     (if 11 \<le> length dg \<and> take 11 dg = CMD_DATA_START then (Continue, dataStart_RT_B self os)
      else if take 11 dg = CMD_DATA_STOP then (Continue, dataStop self os)
      else (Continue, self, os))
   \<and> (11 \<le> length dg \<longrightarrow>
        command_listener_iter self os (Recv_datagram (dg @ trailing)) =
        command_listener_iter self os (Recv_datagram dg))"
proof -
  have eq: "command_listener_iter self os (Recv_datagram d) =
     (if take 11 d = CMD_DATA_START then (Continue, dataStart_RT_B self os)
      else if take 11 d = CMD_DATA_STOP then (Continue, dataStop self os)
      else (Continue, self, os))" for d
    by (simp only: command_listener_iter_def Let_def recv_event.case
        take_11_eq_command [OF length_CMD(1)] take_11_eq_command [OF length_CMD(2)])
  have "take 11 dg = CMD_DATA_START \<Longrightarrow> 11 \<le> length dg"
    by (metis length_CMD(1) length_take min.cobounded1)
  then have a: "command_listener_iter self os (Recv_datagram dg) =
     (if 11 \<le> length dg \<and> take 11 dg = CMD_DATA_START then (Continue, dataStart_RT_B self os)
      else if take 11 dg = CMD_DATA_STOP then (Continue, dataStop self os)
      else (Continue, self, os))"
    unfolding eq by auto
  have b: "command_listener_iter self os (Recv_datagram (dg @ trailing)) =
        command_listener_iter self os (Recv_datagram dg)" if "11 \<le> length dg"
    unfolding eq using that by simp
  show ?thesis using a b by blast
qed

theorem command_listener_recognition_witness:
  "11 \<le> length (CMD_DATA_START @ [7, 7])
   \<and> command_listener_iter (fst streaming_session) (snd streaming_session)
        (Recv_datagram (CMD_DATA_START @ [7, 7])) =
      (Continue, dataStart_RT_B (fst streaming_session) (snd streaming_session))
   \<and> command_listener_iter (fst streaming_session) (snd streaming_session)
        (Recv_datagram (CMD_DATA_STOP @ [7, 7])) =
      (Continue, dataStop (fst streaming_session) (snd streaming_session))
   \<and> command_listener_iter (fst streaming_session) (snd streaming_session)
        (Recv_datagram (take 10 CMD_DATA_START)) =
      (Continue, fst streaming_session, snd streaming_session)
   \<and> command_listener_iter (fst streaming_session) (snd streaming_session)
        (Recv_datagram ((CMD_DATA_START @ [7, 7]) @ [9])) =
      command_listener_iter (fst streaming_session) (snd streaming_session)
        (Recv_datagram (CMD_DATA_START @ [7, 7]))"
proof -
  let ?s = "fst streaming_session" and ?os = "snd streaming_session"
  have ne: "CMD_DATA_START \<noteq> CMD_DATA_STOP"
    by (simp add: CMD_DATA_START_def CMD_DATA_STOP_def)
  have t: "take 10 CMD_DATA_START \<noteq> CMD_DATA_STOP"
    by (simp add: CMD_DATA_START_def CMD_DATA_STOP_def)
  show ?thesis
    using command_listener_recognition [of ?s ?os "CMD_DATA_START @ [7, 7]" "[9]"]
      command_listener_recognition [of ?s ?os "CMD_DATA_STOP @ [7, 7]" "[]"]
      command_listener_recognition [of ?s ?os "take 10 CMD_DATA_START" "[]"] ne t
    by simp
qed

text \<open>
  The statement "\<open>dataStart_RT_B\<close> in the streaming state has no side effect" fails: the call
  starts one more data thread.
\<close>

theorem dataStart_streaming_side_effect_counterexample:
  "isConnected (fst streaming_session) \<and> isData (fst streaming_session)
   \<and> running (fst streaming_session)
   \<and> threads (snd streaming_session) = [Command_listener, Generate_fake_data]
   \<and> threads (snd (dataStart_RT_B (fst streaming_session) (snd streaming_session))) =
       [Command_listener, Generate_fake_data, Generate_fake_data]
   \<and> dataStart_RT_B (fst streaming_session) (snd streaming_session) \<noteq>
       (fst streaming_session, snd streaming_session)"
  by (simp add: streaming_session_def connect_def dataStart_RT_B_def new_socket_def
      bind_socket_def start_thread_def fake_lidar_init_def Let_def)

text \<open>
  Claim C6, as amended. \<open>dataStart_RT_B\<close> has no guard for a session that is already
  streaming and reports nothing: called in the streaming state it returns normally, the
  flags \<open>_isConnected\<close>, \<open>_isData\<close> and \<open>_running\<close> stay true, the sockets are untouched, and
  one more data-producing thread is started, whose handle replaces \<open>_data_thread\<close>; no
  other field of the session changes.
\<close>

theorem dataStart_while_streaming:
  assumes "isConnected self" and "isData self" and "running self"
    and "dataStart_RT_B self os = (self', os')"
  shows "isConnected self' \<and> isData self' \<and> running self'
       \<and> threads os' = threads os @ [Generate_fake_data]
       \<and> data_thread self' = Some (length (threads os))
       \<and> sockets os' = sockets os
       \<and> self'\<lparr>data_thread := data_thread self\<rparr> = self"
  using assms by (auto simp: dataStart_RT_B_def start_thread_def Let_def)

theorem dataStart_while_streaming_witness:
  "isConnected (fst streaming_session) \<and> isData (fst streaming_session)
   \<and> running (fst streaming_session)
   \<and> isData (fst (dataStart_RT_B (fst streaming_session) (snd streaming_session)))
   \<and> threads (snd (dataStart_RT_B (fst streaming_session) (snd streaming_session))) =
       threads (snd streaming_session) @ [Generate_fake_data]
   \<and> data_thread (fst (dataStart_RT_B (fst streaming_session) (snd streaming_session))) = Some 2"
proof -
  let ?s = "fst streaming_session" and ?os = "snd streaming_session"
  have s: "isConnected ?s" "isData ?s" "running ?s" "length (threads ?os) = 2"
    by (simp_all add: streaming_session_def connect_def dataStart_RT_B_def new_socket_def
        bind_socket_def start_thread_def fake_lidar_init_def Let_def)
  have e: "dataStart_RT_B ?s ?os = (fst (dataStart_RT_B ?s ?os), snd (dataStart_RT_B ?s ?os))"
    by simp
  show ?thesis
    using dataStart_while_streaming [OF s(1) s(2) s(3) e] s by simp
qed

text \<open>
  The statement "when a bind fails, every socket opened by the call is closed before
  \<open>connect\<close> returns" fails: after a failed bind of the data socket both sockets are open.
\<close>

theorem connect_bind_failure_open_sockets_counterexample:
  "connect (fake_lidar_init False) \<lparr>sockets = [], threads = []\<rparr> ''127.0.0.1'' ''127.0.0.1''
     56000 65000 False True =
     (0, (fake_lidar_init False)\<lparr>computerIP := ''127.0.0.1'', sensorIP := ''127.0.0.1'',
            dataPort := 56000, cmdPort := 65000, dataSocket := Some 0, cmdSocket := Some 1\<rparr>,
      \<lparr>sockets = [Sock_open, Sock_open], threads = []\<rparr>)"
  by (simp add: connect_def new_socket_def Let_def)

text \<open>
  Claim C7, as amended. When binding a socket fails, \<open>connect\<close> returns 0, leaves
  \<open>_isConnected\<close> as it was (false for a disconnected session) and starts no listener
  thread (\<open>_command_thread\<close> and \<open>_command_running\<close> are unchanged). The two sockets it
  created are not closed by \<open>connect\<close>: they stay referenced by \<open>_dataSocket\<close> and
  \<open>_cmdSocket\<close>, the command socket open and unbound, the data socket bound when only the
  command bind failed; a later \<open>disconnect\<close> closes both.
\<close>

theorem connect_bind_failure:
  assumes "\<not> (data_bind_ok \<and> cmd_bind_ok)"
    and "connect self os computer_ip sensor_ip data_port cmd_port data_bind_ok cmd_bind_ok =
           (r, self', os')"
  shows "r = 0
       \<and> isConnected self' = isConnected self
       \<and> threads os' = threads os
       \<and> command_thread self' = command_thread self
       \<and> command_running self' = command_running self
       \<and> dataSocket self' = Some (length (sockets os))
       \<and> cmdSocket self' = Some (Suc (length (sockets os)))
       \<and> sockets os' = sockets os @
            [if data_bind_ok then Sock_bound computer_ip data_port else Sock_open, Sock_open]
       \<and> sockets (snd (disconnect self' os')) = sockets os @ [Sock_closed, Sock_closed]"
  using assms
  by (auto simp: connect_def new_socket_def bind_socket_def disconnect_def close_socket_def
      Let_def list_update_append split: if_splits)

theorem connect_bind_failure_witness:
  "\<not> (True \<and> False)
   \<and> fst (connect (fake_lidar_init False) \<lparr>sockets = [], threads = []\<rparr> ''127.0.0.1''
        ''127.0.0.1'' 56000 65000 True False) = 0
   \<and> sockets (snd (snd (connect (fake_lidar_init False) \<lparr>sockets = [], threads = []\<rparr>
        ''127.0.0.1'' ''127.0.0.1'' 56000 65000 True False))) =
       [Sock_bound ''127.0.0.1'' 56000, Sock_open]
   \<and> \<not> isConnected (fst (snd (connect (fake_lidar_init False) \<lparr>sockets = [], threads = []\<rparr>
        ''127.0.0.1'' ''127.0.0.1'' 56000 65000 True False)))"
proof -
  let ?c = "connect (fake_lidar_init False) \<lparr>sockets = [], threads = []\<rparr> ''127.0.0.1''
        ''127.0.0.1'' 56000 65000 True False"
  have h: "\<not> (True \<and> False)" by simp
  have e: "?c = (fst ?c, fst (snd ?c), snd (snd ?c))" by simp
  have i: "\<not> isConnected (fake_lidar_init False)" by (simp add: fake_lidar_init_def)
  show ?thesis
    using connect_bind_failure [OF h e] i by simp
qed

section \<open>The simulated device: the measurement frame\<close>

lemma length_le_bytes [simp]: "length (le_bytes n v) = n"
  by (induction n arbitrary: v) auto







lemma length_enc_point [simp]: "length (enc_point p) = 13"
  by (simp add: enc_point_def split: prod.splits)












section \<open>Failures in the query operations\<close>

text \<open>
  In \<open>get_all_berthing_data_core\<close> a sensor whose data cannot be fetched gets an error
  record, and every other streaming sensor still gets its entry. \<open>berthing_mode_status\<close>
  never raises: whenever its body fails it returns \<open>None\<close>.
\<close>

lemma berthing_mode_status_outcomes:
  "berthing_mode_status call = Returns_None \<longleftrightarrow> (\<exists>e. berthing_mode_status_body call = Inl e)"
  by (auto simp: berthing_mode_status_def split: sum.splits)

lemma berthing_mode_status_never_raises: "berthing_mode_status call \<noteq> Raises h"
  by (auto simp: berthing_mode_status_def split: sum.splits)

lemma all_data_loop_entry:
  "map_of (all_data_loop fetch mgr ids result) sid =
     (if sid \<in> set ids \<and> get_or (stream_active mgr sid) False then Some (entry_of fetch sid)
      else map_of result sid)"
proof (induction ids arbitrary: result)
  case Nil
  then show ?case by simp
next
  case (Cons a ids)
  show ?case
  proof (cases "get_or (stream_active mgr a) False")
    case False
    then show ?thesis using Cons.IH [of result] by auto
  next
    case True
    obtain e where e: "entry_of fetch a = e" by simp
    have step: "all_data_loop fetch mgr (a # ids) result =
        all_data_loop fetch mgr ids (AList.update a (entry_of fetch a) result)"
      using True by (auto simp: entry_of_def split: sum.splits exn.splits)
    show ?thesis
      unfolding step using True by (auto simp: Cons.IH update_conv')
  qed
qed

lemma get_all_berthing_data_core_entries:
  assumes "sid \<in> set (berthing_mode_sensors mgr)" and "get_or (stream_active mgr sid) False"
  shows "map_of (ad_sensors (get_all_berthing_data_core_with fetch mgr now)) sid =
           Some (entry_of fetch sid)"
  using assms by (simp add: get_all_berthing_data_core_with_def Let_def all_data_loop_entry)

text \<open>
  Claim C9 says that every failure in a query operation reaches the caller as a structured
  report, and in particular that \<open>berthing_mode_status\<close> still returns a structured response
  when computing the status raises. The code does not: when the manager's call raises,
  \<open>berthing_mode_status\<close> returns \<open>None\<close>, while \<open>berthing_mode_off\<close> on the same failure raises
  \<open>HTTPException(500, str(e))\<close>.
\<close>

theorem berthing_mode_status_swallows_exception:
  "berthing_mode_status (Inl (Exn ''sensor manager unavailable'')) = Returns_None
   \<and> berthing_mode_off [''a''] (Inl (Exn ''sensor manager unavailable'')) =
       Raises (HTTPException 500 ''sensor manager unavailable'')"
  by (simp add: berthing_mode_status_def berthing_mode_status_body_def berthing_mode_off_def
      berthing_mode_off_body_def)

end
